theory Spec2Isabelle
  imports Main
begin

section \<open>Targets and the code generator context\<close>

text \<open>
  The architecture and operating-system enumerations are declared in \<^verbatim>\<open>zig_llvm.hpp\<close>,
  which is not part of \<^verbatim>\<open>codegen.cpp\<close>. The members that \<^verbatim>\<open>codegen.cpp\<close> names are
  kept under their own names; every other member is an \<open>other\<close> value carrying its
  enumeration index.
\<close>

datatype ZigLLVM_ArchType =
    ZigLLVM_arm
  | ZigLLVM_aarch64
  | ZigLLVM_thumb
  | ZigLLVM_other_arch nat

datatype ZigLLVM_OSType =
    ZigLLVM_Darwin
  | ZigLLVM_MacOSX
  | ZigLLVM_IOS
  | ZigLLVM_other_os nat

record ZigTarget =
  arch :: ZigLLVM_ArchType
  os :: ZigLLVM_OSType

section \<open>The backend library, as the operations issued to it\<close>

text \<open>
  The backend library is used through its C interface only. Its objects are modelled by
  what the code can observe of them: a type or a value is the term of the calls that
  built it, a basic block is the list of the instructions built into it, the module is
  the list of its globals and functions. A null pointer is a value of its own.
\<close>

datatype LLVMLinkage = LLVMExternalLinkage | LLVMInternalLinkage | LLVMPrivateLinkage

datatype LLVMIntPredicate =
    LLVMIntEQ | LLVMIntNE
  | LLVMIntUGT | LLVMIntUGE | LLVMIntULT | LLVMIntULE
  | LLVMIntSGT | LLVMIntSGE | LLVMIntSLT | LLVMIntSLE

datatype LLVMRealPredicate =
    LLVMRealOEQ | LLVMRealONE | LLVMRealOLT | LLVMRealOGT | LLVMRealOLE | LLVMRealOGE

datatype LLVMTypeRef =
    LLVMVoidType
  | LLVMIntType nat
  | LLVMPointerType LLVMTypeRef nat
  | LLVMStructType "LLVMTypeRef list" bool
  | LLVMArrayType LLVMTypeRef nat
  | LLVMFunctionType LLVMTypeRef "LLVMTypeRef list" bool
  | LLVMTypeHandle nat
  | LLVMTypeOf LLVMValueRef
and LLVMValueRef =
    LLVMValueNull
  | LLVMInstruction nat
  | LLVMFunction string
  | LLVMGlobal nat
  | LLVMValueHandle nat
  | LLVMGetParam LLVMValueRef nat
  | LLVMConstNull LLVMTypeRef
  | LLVMGetUndef LLVMTypeRef
  | LLVMConstInt LLVMTypeRef nat bool
  | LLVMConstString string nat bool
  | LLVMConstBitCast LLVMValueRef LLVMTypeRef
  | LLVMConstStruct "LLVMValueRef list" bool
  | LLVMConstNamedStruct LLVMTypeRef "LLVMValueRef list"
  | LLVMConstArray LLVMTypeRef "LLVMValueRef list"
  | LLVMConstInlineAsm LLVMTypeRef string string bool bool
  | LLVMConstAllOnes LLVMTypeRef
  | LLVMConstReal LLVMTypeRef nat
  | LLVMConstRealOfInt LLVMTypeRef int
  | LLVMConstInBoundsGEP LLVMValueRef "LLVMValueRef list"

text \<open>
  \<open>LLVMTypeHandle\<close> and \<open>LLVMValueHandle\<close> are types and values made by parts of the
  compiler outside \<^verbatim>\<open>codegen.cpp\<close> or kept symbolic here (the type registry's
  \<open>type_ref\<close>s, debug-info handles). \<open>LLVMInstruction n\<close> is the result of the \<open>n\<close>-th
  instruction built; \<open>LLVMFunction name\<close> is the module's function of that name;
  \<open>LLVMGlobal n\<close> is the \<open>n\<close>-th global added to the module. A floating-point constant
  is kept as the call that made it: \<open>LLVMConstReal ty bits\<close> from a double (its bit
  pattern), \<open>LLVMConstRealOfInt ty x\<close> from the 64-bit integer \<open>x\<close> converted to a double.
\<close>

definition LLVMInt1Type :: LLVMTypeRef where "LLVMInt1Type = LLVMIntType 1"
definition LLVMInt8Type :: LLVMTypeRef where "LLVMInt8Type = LLVMIntType 8"
definition LLVMInt32Type :: LLVMTypeRef where "LLVMInt32Type = LLVMIntType 32"

type_synonym LLVMBasicBlockRef = "nat option"

datatype LLVMBinaryOp =
    OpAdd | OpNSWAdd | OpNUWAdd | OpFAdd
  | OpSub | OpNSWSub | OpNUWSub | OpFSub
  | OpMul | OpNSWMul | OpNUWMul | OpFMul
  | OpSDiv | OpUDiv | OpExactSDiv | OpExactUDiv | OpFDiv
  | OpSRem | OpURem | OpFRem
  | OpShl | OpNSWShl | OpNUWShl | OpAShr | OpLShr
  | OpAnd | OpOr | OpXor

datatype LLVMOp =
    InstBinary LLVMBinaryOp LLVMValueRef LLVMValueRef
  | InstICmp LLVMIntPredicate LLVMValueRef LLVMValueRef
  | InstFCmp LLVMRealPredicate LLVMValueRef LLVMValueRef
  | InstCall LLVMValueRef "LLVMValueRef list"
  | InstExtractValue LLVMValueRef nat
  | InstCondBr LLVMValueRef LLVMBasicBlockRef LLVMBasicBlockRef
  | InstBr LLVMBasicBlockRef
  | InstUnreachable
  | InstLoad LLVMValueRef
  | InstStore LLVMValueRef LLVMValueRef
  | InstBitCast LLVMValueRef LLVMTypeRef
  | InstPhi LLVMTypeRef "(LLVMValueRef \<times> LLVMBasicBlockRef) list"
  | InstInBoundsGEP LLVMValueRef "LLVMValueRef list"
  | InstDbgDeclare LLVMValueRef LLVMValueRef nat nat

text \<open>An instruction in a block: its number (the handle the build call returned) and what it is.\<close>

type_synonym LLVMInstr = "nat \<times> LLVMOp"

record LLVMBasicBlock =
  bb_parent :: LLVMValueRef
  bb_name :: string
  bb_instrs :: "LLVMInstr list"

text \<open>
  The builder together with the blocks it builds into: \<open>blocks\<close> maps a block handle to
  the block, the handles in use are \<open>0 ..< num_blocks\<close>, \<open>insert_block\<close> is the insertion
  point (the end of that block) and \<open>next_instr\<close> the number of instructions built.
\<close>

record LLVMBuilder =
  blocks :: "nat \<Rightarrow> LLVMBasicBlock"
  num_blocks :: nat
  insert_block :: LLVMBasicBlockRef
  next_instr :: nat

record LLVMGlobalVar =
  gv_name :: string
  gv_type :: LLVMTypeRef
  gv_initializer :: "LLVMValueRef option"
  gv_linkage :: LLVMLinkage
  gv_constant :: bool
  gv_unnamed_addr :: bool

datatype LLVMAttribute =
    LLVMAlwaysInlineAttribute
  | LLVMNoInlineAttribute
  | LLVMNakedAttribute
  | LLVMNoReturnAttribute
  | LLVMNoUnwindAttribute
  | LLVMStructRetAttribute
  | LLVMNoAliasAttribute
  | LLVMReadOnlyAttribute
  | LLVMNonNullAttribute

text \<open>
  A function of the module: its name and type, and what the setters have been told about
  it. \<open>fd_attrs\<close> are the attributes of the function, \<open>fd_string_attrs\<close> the ones given as
  strings (the value may be null), \<open>fd_param_attrs\<close> the attributes of a parameter or of
  the return value, under the index they were given with.
\<close>

record LLVMFunctionDecl =
  fd_name :: string
  fd_type :: LLVMTypeRef
  fd_linkage :: LLVMLinkage
  fd_call_conv :: nat
  fd_attrs :: "LLVMAttribute list"
  fd_string_attrs :: "(string \<times> string option) list"
  fd_param_attrs :: "(nat \<times> LLVMAttribute) list"

text \<open>The module: its globals (a global's handle is its index) and its functions.\<close>

record LLVMModule =
  module_globals :: "LLVMGlobalVar list"
  module_functions :: "LLVMFunctionDecl list"

subsection \<open>Syntax trees, as far as the backend reads them\<close>

datatype NodeType =
    NodeTypeErrorValueDecl
  | NodeTypeAsmExpr
  | NodeTypeVariableDeclaration
  | NodeTypeOther

datatype AsmTokenId = AsmTokenIdTemplate | AsmTokenIdPercent | AsmTokenIdVar

record AsmToken =
  tok_id :: AsmTokenId
  tok_start :: nat
  tok_end :: nat

text \<open>An output of an asm expression; \<open>has_return_type\<close> is \<^verbatim>\<open>return_type != nullptr\<close>.\<close>

record AsmOutput =
  out_asm_symbolic_name :: string
  out_constraint :: string
  has_return_type :: bool

record AsmInput =
  in_asm_symbolic_name :: string
  in_constraint :: string

record AstNodeAsmExpr =
  asm_template :: string
  is_volatile :: bool
  token_list :: "AsmToken list"
  output_list :: "AsmOutput list"
  input_list :: "AsmInput list"
  clobber_list :: "string list"

text \<open>
  A node: its position and the member of the \<^verbatim>\<open>data\<close> union that its type selects
  (\<open>NodeErrorValueDecl name\<close> is \<^verbatim>\<open>data.error_value_decl.name\<close>).
\<close>

datatype AstNodeData =
    NodeErrorValueDecl string
  | NodeAsmExpr AstNodeAsmExpr
  | NodeVariableDeclaration bool
  | NodeOther

record AstNode =
  line :: nat
  column :: nat
  data :: AstNodeData

definition node_type :: "AstNode \<Rightarrow> NodeType" where
  "node_type n =
     (case data n of
        NodeErrorValueDecl name \<Rightarrow> NodeTypeErrorValueDecl
      | NodeAsmExpr e \<Rightarrow> NodeTypeAsmExpr
      | NodeVariableDeclaration is_extern \<Rightarrow> NodeTypeVariableDeclaration
      | NodeOther \<Rightarrow> NodeTypeOther)"

subsection \<open>Lexical scopes\<close>

datatype ScopeId =
    ScopeIdDecls
  | ScopeIdBlock
  | ScopeIdDefer
  | ScopeIdVarDecl
  | ScopeIdCImport
  | ScopeIdLoop
  | ScopeIdFnDef

text \<open>
  A scope is its tag, the two safety fields that \<^verbatim>\<open>ScopeBlock\<close> and \<^verbatim>\<open>ScopeDecls\<close> carry
  (\<open>safety_set_node\<close> is the test "the pointer is not null"), whether its debug scope is
  already resolved (\<open>di_scope\<close> not null), whether a \<^verbatim>\<open>ScopeDecls\<close> has its
  \<open>container_type\<close>, and the parent pointer.
\<close>

datatype Scope =
  Scope (scope_id: ScopeId) (safety_set_node: bool) (safety_off: bool)
        (di_scope: bool) (container_type: bool) (parent: "Scope option")

subsection \<open>Types and intermediate representation\<close>

datatype TypeTableEntryId =
    TypeTableEntryIdInvalid
  | TypeTableEntryIdVar
  | TypeTableEntryIdMetaType
  | TypeTableEntryIdVoid
  | TypeTableEntryIdBool
  | TypeTableEntryIdUnreachable
  | TypeTableEntryIdInt
  | TypeTableEntryIdFloat
  | TypeTableEntryIdPointer
  | TypeTableEntryIdArray
  | TypeTableEntryIdStruct
  | TypeTableEntryIdNumLitFloat
  | TypeTableEntryIdNumLitInt
  | TypeTableEntryIdUndefLit
  | TypeTableEntryIdNullLit
  | TypeTableEntryIdMaybe
  | TypeTableEntryIdErrorUnion
  | TypeTableEntryIdPureError
  | TypeTableEntryIdEnum
  | TypeTableEntryIdUnion
  | TypeTableEntryIdFn
  | TypeTableEntryIdTypeDecl
  | TypeTableEntryIdNamespace
  | TypeTableEntryIdBlock
  | TypeTableEntryIdBoundFn

text \<open>
  A type table entry is a tagged union: its \<^verbatim>\<open>id\<close> says which member of \<^verbatim>\<open>data\<close> is in use.
  Here the member in use is the constructor of \<open>type_data\<close> (named after the member:
  \<open>data_pointer_child_type\<close> is \<^verbatim>\<open>data.pointer.child_type\<close>), and \<open>type_id\<close> is read off it; a
  member read from another constructor is an unspecified value. The types a type refers to
  are part of the value, so that a type is a finite tree and the registry's sharing of
  equal types is equality. A field index that is \<^verbatim>\<open>SIZE_MAX\<close> in the source is \<open>None\<close>.

  Three functions of a type are defined outside \<^verbatim>\<open>codegen.cpp\<close> and are carried with the
  type as what they answer for it: \<open>handle_is_ptr\<close> (\<^verbatim>\<open>handle_is_ptr\<close> of the analyser: the
  type is passed by reference), \<open>store_size\<close> (\<^verbatim>\<open>LLVMStoreSizeOfType\<close> on the target's data
  layout, also what \<^verbatim>\<open>type_size\<close> answers) and \<open>memcpy_align\<close> (\<^verbatim>\<open>get_memcpy_align\<close>).
\<close>

datatype TypeTableEntry =
  TypeTableEntry (type_ref: LLVMTypeRef) (zero_bits: bool) (handle_is_ptr: bool)
                 (store_size: nat) (memcpy_align: nat) (type_data: TypeTableEntryData)
and TypeTableEntryData =
    TypeDataInvalid
  | TypeDataVar
  | TypeDataMetaType
  | TypeDataVoid
  | TypeDataBool
  | TypeDataUnreachable
  | TypeDataInt (data_integral_is_signed: bool) (data_integral_bit_count: nat)
  | TypeDataFloat (data_floating_bit_count: nat)
  | TypeDataPointer (data_pointer_child_type: TypeTableEntry) (data_pointer_is_const: bool)
  | TypeDataArray (data_array_child_type: TypeTableEntry) (data_array_len: nat)
  | TypeDataStruct (data_structure_fields: "TypeStructField list")
                   (data_structure_gen_field_count: nat) (data_structure_is_slice: bool)
  | TypeDataNumLitFloat
  | TypeDataNumLitInt
  | TypeDataUndefLit
  | TypeDataNullLit
  | TypeDataMaybe (data_maybe_child_type: TypeTableEntry)
  | TypeDataErrorUnion (data_error_child_type: TypeTableEntry)
  | TypeDataPureError
  | TypeDataEnum (data_enumeration_tag_type: TypeTableEntry)
                 (data_enumeration_gen_field_count: nat)
                 (data_enumeration_union_type: TypeTableEntry)
                 (data_enumeration_fields: "TypeEnumField list")
  | TypeDataUnion
  | TypeDataFn (data_fn_fn_type_id: FnTypeId) (data_fn_raw_type_ref: LLVMTypeRef)
               (data_fn_gen_param_info: "FnGenParamInfo list")
               (data_fn_calling_convention: nat)
  | TypeDataTypeDecl (data_type_decl_canonical_type: TypeTableEntry)
  | TypeDataNamespace
  | TypeDataBlock
  | TypeDataBoundFn
and TypeStructField =
  TypeStructField (field_type_entry: TypeTableEntry) (field_gen_index: "nat option")
and TypeEnumField =
  TypeEnumField (enum_field_value: nat) (enum_field_type_entry: TypeTableEntry)
and FnTypeId =
  FnTypeId (return_type: TypeTableEntry) (param_info: "bool list")
           (is_extern: bool) (is_naked: bool) (is_var_args: bool)
and FnGenParamInfo =
  FnGenParamInfo (gen_index: "nat option") (is_byval: bool) (gen_type: TypeTableEntry)

text \<open>
  \<open>param_info\<close> holds \<^verbatim>\<open>is_noalias\<close> of each parameter, and the length of the list is
  \<^verbatim>\<open>param_count\<close>; the length of \<open>data_structure_fields\<close> is \<^verbatim>\<open>src_field_count\<close>.
\<close>

fun type_id_of :: "TypeTableEntryData \<Rightarrow> TypeTableEntryId" where
  "type_id_of TypeDataInvalid = TypeTableEntryIdInvalid"
| "type_id_of TypeDataVar = TypeTableEntryIdVar"
| "type_id_of TypeDataMetaType = TypeTableEntryIdMetaType"
| "type_id_of TypeDataVoid = TypeTableEntryIdVoid"
| "type_id_of TypeDataBool = TypeTableEntryIdBool"
| "type_id_of TypeDataUnreachable = TypeTableEntryIdUnreachable"
| "type_id_of (TypeDataInt s b) = TypeTableEntryIdInt"
| "type_id_of (TypeDataFloat b) = TypeTableEntryIdFloat"
| "type_id_of (TypeDataPointer c k) = TypeTableEntryIdPointer"
| "type_id_of (TypeDataArray c n) = TypeTableEntryIdArray"
| "type_id_of (TypeDataStruct fs n sl) = TypeTableEntryIdStruct"
| "type_id_of TypeDataNumLitFloat = TypeTableEntryIdNumLitFloat"
| "type_id_of TypeDataNumLitInt = TypeTableEntryIdNumLitInt"
| "type_id_of TypeDataUndefLit = TypeTableEntryIdUndefLit"
| "type_id_of TypeDataNullLit = TypeTableEntryIdNullLit"
| "type_id_of (TypeDataMaybe c) = TypeTableEntryIdMaybe"
| "type_id_of (TypeDataErrorUnion c) = TypeTableEntryIdErrorUnion"
| "type_id_of TypeDataPureError = TypeTableEntryIdPureError"
| "type_id_of (TypeDataEnum t n u fs) = TypeTableEntryIdEnum"
| "type_id_of TypeDataUnion = TypeTableEntryIdUnion"
| "type_id_of (TypeDataFn f r ps cc) = TypeTableEntryIdFn"
| "type_id_of (TypeDataTypeDecl c) = TypeTableEntryIdTypeDecl"
| "type_id_of TypeDataNamespace = TypeTableEntryIdNamespace"
| "type_id_of TypeDataBlock = TypeTableEntryIdBlock"
| "type_id_of TypeDataBoundFn = TypeTableEntryIdBoundFn"

fun type_id :: "TypeTableEntry \<Rightarrow> TypeTableEntryId" where
  "type_id (TypeTableEntry r z h s m d) = type_id_of d"

text \<open>\<^verbatim>\<open>data.integral\<close> and \<^verbatim>\<open>data.enumeration.gen_field_count\<close> of a type.\<close>

fun integral_is_signed :: "TypeTableEntry \<Rightarrow> bool" where
  "integral_is_signed (TypeTableEntry r z h s m d) = data_integral_is_signed d"

fun integral_bit_count :: "TypeTableEntry \<Rightarrow> nat" where
  "integral_bit_count (TypeTableEntry r z h s m d) = data_integral_bit_count d"


text \<open>
  Modelled from the spec: \<^verbatim>\<open>type_has_bits\<close> is defined in the analyser, not in
  \<^verbatim>\<open>codegen.cpp\<close>. The specification gives every type a \<open>zero_bits\<close> flag, true when the
  type occupies no storage; a type has bits when the flag is false.
\<close>

definition type_has_bits :: "TypeTableEntry \<Rightarrow> bool" where
  "type_has_bits ty = (\<not> zero_bits ty)"

text \<open>
  A function of the program, as far as the backend reads it outside its body. \<open>fn_id\<close>
  identifies the object, whose mutable \<^verbatim>\<open>llvm_value\<close> lives in the context.
\<close>

datatype FnInline = FnInlineAuto | FnInlineAlways | FnInlineNever

record FnTableEntry =
  fn_id :: nat
  symbol_name :: string
  internal_linkage :: bool
  fn_type_entry :: TypeTableEntry
  fn_inline :: FnInline
  is_test :: bool

datatype ConstValSpecial =
    ConstValSpecialRuntime
  | ConstValSpecialStatic
  | ConstValSpecialUndef
  | ConstValSpecialZeroes

text \<open>
  A big number: whether its kind is \<^verbatim>\<open>BigNumKindFloat\<close>, its sign, its magnitude
  \<^verbatim>\<open>data.x_uint\<close>, its \<^verbatim>\<open>data.x_float\<close> (a double, kept as its bit pattern), and what
  \<^verbatim>\<open>bignum_to_twos_complement\<close>, which is defined outside \<^verbatim>\<open>codegen.cpp\<close>, returns for it.
\<close>

record BigNum =
  kind_is_float :: bool
  is_negative :: bool
  x_uint :: nat
  x_float :: nat
  bignum_to_twos_complement :: nat

text \<open>An entry of the error table; \<open>err_value\<close> is its tag \<^verbatim>\<open>value\<close>.\<close>

record ErrorTableEntry =
  err_value :: nat

text \<open>
  A constant value. \<open>const_id\<close> identifies the object (its two cached handles
  \<open>llvm_value\<close> and \<open>llvm_global\<close> are mutable and live in the context, by this
  identity). \<open>const_data\<close> is the member of the \<^verbatim>\<open>data\<close> union that was written, named after
  the member; a pointer that may be null is an option. The elements of an array constant
  are a list, \<^verbatim>\<open>x_array.size\<close> is kept beside it.
\<close>

datatype ConstExprValue =
  ConstExprValue (const_id: nat) (special: ConstValSpecial) (const_data: ConstData)
and ConstData =
    X_none
  | X_bignum BigNum
  | X_bool bool
  | X_fn "FnTableEntry option"
  | X_maybe "ConstExprValue option"
  | X_struct "ConstExprValue list"
  | X_array "ConstExprValue list" nat
  | X_enum nat "ConstExprValue option"
  | X_pure_err "ErrorTableEntry option"
  | X_err_union "ErrorTableEntry option" "ConstExprValue option"
  | X_ptr "ConstExprValue option" "nat option"

text \<open>
  The base of every instruction. \<open>debug_id\<close> identifies the instruction object, whose
  mutable \<open>llvm_value\<close> lives in the context. \<open>has_side_effects\<close> is what
  \<^verbatim>\<open>ir_has_side_effects\<close> (defined with the IR, outside \<^verbatim>\<open>codegen.cpp\<close>) answers for it.
\<close>

record IrInstruction =
  debug_id :: nat
  scope :: "Scope option"
  source_node :: "AstNode option"
  type_entry :: TypeTableEntry
  static_value :: ConstExprValue
  ref_count :: nat
  has_side_effects :: bool



text \<open>
  A variable. \<open>var_id\<close> identifies the object: its \<open>value_ref\<close>, assigned when the function
  body is generated, lives in the context. \<open>di_loc_var\<close> is its debug-variable handle;
  \<open>src_arg_index\<close> and \<open>gen_arg_index\<close> are \<open>None\<close> for \<^verbatim>\<open>SIZE_MAX\<close>.
\<close>

record VariableTableEntry =
  var_id :: nat
  var_name :: string
  var_type :: TypeTableEntry
  var_ref_count :: nat
  decl_node :: AstNode
  parent_scope :: "Scope option"
  di_loc_var :: LLVMValueRef
  src_arg_index :: "nat option"
  gen_arg_index :: "nat option"
  is_inline :: bool

record IrInstructionDeclVar =
  decl_var_base :: IrInstruction
  var :: VariableTableEntry
  init_value :: IrInstruction










subsection \<open>Aborting\<close>

text \<open>
  A failed \<^verbatim>\<open>assert\<close>, \<^verbatim>\<open>zig_unreachable()\<close> and \<^verbatim>\<open>zig_panic\<close> abort the compiler; a read
  or write outside an array, the use of a null pointer and the read of a member of a
  constant's \<^verbatim>\<open>data\<close> union other than the one that was written are undefined in the source
  and are failures here.
\<close>

datatype abort =
  AssertionFailed | ZigUnreachable | ZigPanic | OutOfBounds | NullPointer | WrongUnionMember

definition and_then :: "abort + 'a \<Rightarrow> ('a \<Rightarrow> abort + 'b) \<Rightarrow> abort + 'b" where
  "and_then r f = (case r of Inl e \<Rightarrow> Inl e | Inr x \<Rightarrow> f x)"

subsection \<open>The context\<close>

record CodeGen =
  is_release_build :: bool
  is_test_build :: bool
  is_native_target :: bool
  zig_target :: ZigTarget
  mmacosx_version_min :: "string option"
  mios_version_min :: "string option"
  generate_error_name_table :: bool
  error_decls :: "AstNode option list"
  test_fn_count :: nat
  llvm_module :: LLVMModule
  builder :: LLVMBuilder
  cur_fn_val :: LLVMValueRef
  trap_fn_val :: LLVMValueRef
  memcpy_fn_val :: LLVMValueRef
  memset_fn_val :: LLVMValueRef
  err_name_table :: LLVMValueRef
  int_overflow_fns :: "nat \<Rightarrow> nat \<Rightarrow> nat \<Rightarrow> LLVMValueRef"
  pointer_size_bytes :: nat
  entry_usize :: TypeTableEntry
  instr_llvm_value :: "nat \<Rightarrow> LLVMValueRef"
  const_llvm_value :: "nat \<Rightarrow> LLVMValueRef"
  const_llvm_global :: "nat \<Rightarrow> LLVMValueRef"
  var_value_ref :: "nat \<Rightarrow> LLVMValueRef"
  slice_u8_type :: TypeTableEntry
  u8_ptr_type :: TypeTableEntry
  entry_pure_error :: TypeTableEntry
  err_tag_type :: TypeTableEntry
  fn_table_llvm_value :: "nat \<Rightarrow> LLVMValueRef"
  array_type_table :: "TypeTableEntry \<Rightarrow> nat \<Rightarrow> TypeTableEntry"

text \<open>
  \<open>llvm_module\<close> is \<^verbatim>\<open>g->module\<close> and \<open>builder\<close> is \<^verbatim>\<open>g->builder\<close>.
  \<open>entry_usize\<close> is \<^verbatim>\<open>g->builtin_types.entry_usize\<close>. The last three fields are
  the mutable handles of the IR objects: \<^verbatim>\<open>instruction->llvm_value\<close> by \<open>debug_id\<close>, and
  a constant's \<^verbatim>\<open>llvm_value\<close> and \<^verbatim>\<open>llvm_global\<close> by \<open>const_id\<close>, a variable's
  \<^verbatim>\<open>value_ref\<close> by \<open>var_id\<close>. \<open>slice_u8_type\<close> is the type \<^verbatim>\<open>get_slice_type(g, u8, true)\<close>
  of the type registry and \<open>u8_ptr_type\<close> the type of its first field.
  \<open>entry_pure_error\<close> is \<^verbatim>\<open>g->builtin_types.entry_pure_error\<close>; \<open>fn_table_llvm_value\<close> holds
  \<^verbatim>\<open>fn_table_entry->llvm_value\<close> by \<open>fn_id\<close>; \<open>array_type_table child n\<close> is what
  \<^verbatim>\<open>get_array_type(g, child, n)\<close> of the type registry answers from the tables of \<open>g\<close>.
\<close>

section \<open>Deployment targets on Darwin\<close>

text \<open>\<^verbatim>\<open>getenv\<close> is a lookup in the process environment; a null result is \<open>None\<close>.\<close>

type_synonym environ = "string \<Rightarrow> string option"

definition init_darwin_native :: "environ \<Rightarrow> CodeGen \<Rightarrow> CodeGen" where
  "init_darwin_native getenv g =
    (let osx_target = getenv ''MACOSX_DEPLOYMENT_TARGET'';
         ios_target = getenv ''IPHONEOS_DEPLOYMENT_TARGET'';
         both = (osx_target \<noteq> None \<and> ios_target \<noteq> None);
         is_arm = (arch (zig_target g) = ZigLLVM_arm \<or>
                   arch (zig_target g) = ZigLLVM_aarch64 \<or>
                   arch (zig_target g) = ZigLLVM_thumb);
         osx_target' = (if both \<and> is_arm then None else osx_target);
         ios_target' = (if both \<and> \<not> is_arm then None else ios_target)
     in case osx_target' of
          Some v \<Rightarrow> g\<lparr>mmacosx_version_min := Some v\<rparr>
        | None \<Rightarrow>
            (case ios_target' of
               Some v \<Rightarrow> g\<lparr>mios_version_min := Some v\<rparr>
             | None \<Rightarrow> g))"

text \<open>
  \<^verbatim>\<open>codegen_create\<close>: the context is allocated zeroed; with no target given the
  compilation is native, the target is the host's (\<^verbatim>\<open>get_native_target\<close>, passed in
  here), and on the three Darwin systems the environment is consulted.
\<close>

definition zeroed_type :: TypeTableEntry where
  "zeroed_type = TypeTableEntry (LLVMTypeHandle 0) False False 0 0 TypeDataInvalid"

definition codegen_zeroed :: "ZigTarget \<Rightarrow> CodeGen" where
  "codegen_zeroed t =
     \<lparr> is_release_build = False, is_test_build = False, is_native_target = False,
       zig_target = t, mmacosx_version_min = None, mios_version_min = None,
       generate_error_name_table = False, error_decls = [],
       test_fn_count = 0,
       llvm_module = \<lparr>module_globals = [], module_functions = []\<rparr>,
       builder = \<lparr>blocks = (\<lambda>b. \<lparr>bb_parent = LLVMValueNull, bb_name = [], bb_instrs = []\<rparr>),
                   num_blocks = 0, insert_block = None, next_instr = 0\<rparr>,
       cur_fn_val = LLVMValueNull,
       trap_fn_val = LLVMValueNull, memcpy_fn_val = LLVMValueNull,
       memset_fn_val = LLVMValueNull, err_name_table = LLVMValueNull,
       int_overflow_fns = (\<lambda>i j k. LLVMValueNull),
       pointer_size_bytes = 0, entry_usize = zeroed_type,
       instr_llvm_value = (\<lambda>i. LLVMValueNull),
       const_llvm_value = (\<lambda>i. LLVMValueNull),
       const_llvm_global = (\<lambda>i. LLVMValueNull),
       var_value_ref = (\<lambda>i. LLVMValueNull),
       slice_u8_type = zeroed_type, u8_ptr_type = zeroed_type,
       entry_pure_error = zeroed_type, err_tag_type = zeroed_type,
       fn_table_llvm_value = (\<lambda>i. LLVMValueNull),
       array_type_table = (\<lambda>child n. zeroed_type) \<rparr>"

definition codegen_create :: "environ \<Rightarrow> ZigTarget \<Rightarrow> ZigTarget option \<Rightarrow> CodeGen" where
  "codegen_create getenv native_target target =
    (case target of
       Some t \<Rightarrow> (codegen_zeroed t)\<lparr>error_decls := [None]\<rparr>
     | None \<Rightarrow>
        (let g = (codegen_zeroed native_target)\<lparr>error_decls := [None], is_native_target := True\<rparr>
         in if os (zig_target g) = ZigLLVM_Darwin \<or>
               os (zig_target g) = ZigLLVM_MacOSX \<or>
               os (zig_target g) = ZigLLVM_IOS
            then init_darwin_native getenv g
            else g))"

definition codegen_set_is_release :: "CodeGen \<Rightarrow> bool \<Rightarrow> CodeGen" where
  "codegen_set_is_release g b = g\<lparr>is_release_build := b\<rparr>"

section \<open>The instruction builder\<close>

text \<open>
  A build call inserts the instruction at the end of the block the builder is positioned
  in and returns its handle. With no insertion point the instruction is created and
  inserted nowhere. The library's calls take \<^verbatim>\<open>g->builder\<close>; here they take the context
  and act on its \<open>builder\<close>.
\<close>

definition insert_instr :: "LLVMBuilder \<Rightarrow> LLVMOp \<Rightarrow> LLVMBuilder" where
  "insert_instr b op =
     b\<lparr> blocks :=
          (case insert_block b of
             None \<Rightarrow> blocks b
           | Some k \<Rightarrow>
               (blocks b)(k := (blocks b k)\<lparr>bb_instrs := bb_instrs (blocks b k) @ [(next_instr b, op)]\<rparr>)),
        next_instr := Suc (next_instr b) \<rparr>"

definition builder_insert :: "CodeGen \<Rightarrow> LLVMOp \<Rightarrow> LLVMValueRef \<times> CodeGen" where
  "builder_insert g op =
     (LLVMInstruction (next_instr (builder g)), g\<lparr>builder := insert_instr (builder g) op\<rparr>)"

definition append_block :: "LLVMBuilder \<Rightarrow> LLVMValueRef \<Rightarrow> string \<Rightarrow> LLVMBuilder" where
  "append_block b fn name =
     b\<lparr> blocks := (blocks b)(num_blocks b := \<lparr>bb_parent = fn, bb_name = name, bb_instrs = []\<rparr>),
        num_blocks := Suc (num_blocks b) \<rparr>"

definition LLVMAppendBasicBlock ::
  "CodeGen \<Rightarrow> LLVMValueRef \<Rightarrow> string \<Rightarrow> LLVMBasicBlockRef \<times> CodeGen" where
  "LLVMAppendBasicBlock g fn name =
     (Some (num_blocks (builder g)), g\<lparr>builder := append_block (builder g) fn name\<rparr>)"

definition LLVMPositionBuilderAtEnd :: "CodeGen \<Rightarrow> LLVMBasicBlockRef \<Rightarrow> CodeGen" where
  "LLVMPositionBuilderAtEnd g block = g\<lparr>builder := (builder g)\<lparr>insert_block := block\<rparr>\<rparr>"

definition LLVMGetInsertBlock :: "CodeGen \<Rightarrow> LLVMBasicBlockRef" where
  "LLVMGetInsertBlock g = insert_block (builder g)"

definition LLVMBuildCall ::
  "CodeGen \<Rightarrow> LLVMValueRef \<Rightarrow> LLVMValueRef list \<Rightarrow> LLVMValueRef \<times> CodeGen" where
  "LLVMBuildCall g fn args = builder_insert g (InstCall fn args)"

definition LLVMBuildUnreachable :: "CodeGen \<Rightarrow> LLVMValueRef \<times> CodeGen" where
  "LLVMBuildUnreachable g = builder_insert g InstUnreachable"

definition LLVMBuildICmp ::
  "CodeGen \<Rightarrow> LLVMIntPredicate \<Rightarrow> LLVMValueRef \<Rightarrow> LLVMValueRef \<Rightarrow> LLVMValueRef \<times> CodeGen" where
  "LLVMBuildICmp g pred lhs rhs = builder_insert g (InstICmp pred lhs rhs)"

definition LLVMBuildFCmp ::
  "CodeGen \<Rightarrow> LLVMRealPredicate \<Rightarrow> LLVMValueRef \<Rightarrow> LLVMValueRef \<Rightarrow> LLVMValueRef \<times> CodeGen" where
  "LLVMBuildFCmp g pred lhs rhs = builder_insert g (InstFCmp pred lhs rhs)"

definition LLVMBuildCondBr ::
  "CodeGen \<Rightarrow> LLVMValueRef \<Rightarrow> LLVMBasicBlockRef \<Rightarrow> LLVMBasicBlockRef \<Rightarrow> LLVMValueRef \<times> CodeGen" where
  "LLVMBuildCondBr g cond then_bb else_bb =
     builder_insert g (InstCondBr cond then_bb else_bb)"

definition LLVMBuildBr :: "CodeGen \<Rightarrow> LLVMBasicBlockRef \<Rightarrow> LLVMValueRef \<times> CodeGen" where
  "LLVMBuildBr g dest = builder_insert g (InstBr dest)"

definition LLVMBuildExtractValue ::
  "CodeGen \<Rightarrow> LLVMValueRef \<Rightarrow> nat \<Rightarrow> LLVMValueRef \<times> CodeGen" where
  "LLVMBuildExtractValue g agg index = builder_insert g (InstExtractValue agg index)"

definition LLVMBuildBinary ::
  "CodeGen \<Rightarrow> LLVMBinaryOp \<Rightarrow> LLVMValueRef \<Rightarrow> LLVMValueRef \<Rightarrow> LLVMValueRef \<times> CodeGen" where
  "LLVMBuildBinary g op lhs rhs = builder_insert g (InstBinary op lhs rhs)"

definition LLVMBuildLoad :: "CodeGen \<Rightarrow> LLVMValueRef \<Rightarrow> LLVMValueRef \<times> CodeGen" where
  "LLVMBuildLoad g ptr = builder_insert g (InstLoad ptr)"

definition LLVMBuildStore :: "CodeGen \<Rightarrow> LLVMValueRef \<Rightarrow> LLVMValueRef \<Rightarrow> LLVMValueRef \<times> CodeGen" where
  "LLVMBuildStore g val ptr = builder_insert g (InstStore val ptr)"

definition LLVMBuildBitCast ::
  "CodeGen \<Rightarrow> LLVMValueRef \<Rightarrow> LLVMTypeRef \<Rightarrow> LLVMValueRef \<times> CodeGen" where
  "LLVMBuildBitCast g val ty = builder_insert g (InstBitCast val ty)"

definition LLVMBuildInBoundsGEP ::
  "CodeGen \<Rightarrow> LLVMValueRef \<Rightarrow> LLVMValueRef list \<Rightarrow> LLVMValueRef \<times> CodeGen" where
  "LLVMBuildInBoundsGEP g ptr indices = builder_insert g (InstInBoundsGEP ptr indices)"

section \<open>Safety helpers\<close>

definition gen_debug_safety_crash :: "CodeGen \<Rightarrow> CodeGen" where
  "gen_debug_safety_crash g =
     (let (call, g) = LLVMBuildCall g (trap_fn_val g) [];
          (unr, g) = LLVMBuildUnreachable g
      in g)"

definition add_bounds_check ::
  "CodeGen \<Rightarrow> LLVMValueRef \<Rightarrow> LLVMIntPredicate \<Rightarrow> LLVMValueRef \<Rightarrow>
     LLVMIntPredicate \<Rightarrow> LLVMValueRef \<Rightarrow> CodeGen" where
  "add_bounds_check g target_val lower_pred0 lower_value0 upper_pred upper_value0 =
     (if lower_value0 = LLVMValueNull \<and> upper_value0 = LLVMValueNull then g
      else
        let swap = (upper_value0 \<noteq> LLVMValueNull \<and> lower_value0 = LLVMValueNull);
            lower_value = (if swap then upper_value0 else lower_value0);
            lower_pred = (if swap then upper_pred else lower_pred0);
            upper_value = (if swap then LLVMValueNull else upper_value0);
            (bounds_check_fail_block, g) = LLVMAppendBasicBlock g (cur_fn_val g) ''BoundsCheckFail'';
            (ok_block, g) = LLVMAppendBasicBlock g (cur_fn_val g) ''BoundsCheckOk'';
            (lower_ok_block, g) =
               (if upper_value \<noteq> LLVMValueNull
                then LLVMAppendBasicBlock g (cur_fn_val g) ''FirstBoundsCheckOk''
                else (ok_block, g));
            (lower_ok_val, g) = LLVMBuildICmp g lower_pred target_val lower_value;
            (br, g) = LLVMBuildCondBr g lower_ok_val lower_ok_block bounds_check_fail_block;
            g = LLVMPositionBuilderAtEnd g bounds_check_fail_block;
            g = gen_debug_safety_crash g;
            g = (if upper_value \<noteq> LLVMValueNull then
                   (let g = LLVMPositionBuilderAtEnd g lower_ok_block;
                        (upper_ok_val, g) = LLVMBuildICmp g upper_pred target_val upper_value;
                        (br2, g) = LLVMBuildCondBr g upper_ok_val ok_block bounds_check_fail_block
                    in g)
                 else g)
        in LLVMPositionBuilderAtEnd g ok_block)"

section \<open>The safety predicate\<close>

text \<open>The loop of \<^verbatim>\<open>ir_want_debug_safety\<close> over the parent chain.\<close>

fun want_debug_safety_walk :: "Scope option \<Rightarrow> bool" where
  "want_debug_safety_walk None = True"
| "want_debug_safety_walk (Some (Scope i set_node off di ct p)) =
     (if i = ScopeIdBlock then
        (if set_node then \<not> off else want_debug_safety_walk p)
      else if i = ScopeIdDecls then
        (if set_node then \<not> off else want_debug_safety_walk p)
      else want_debug_safety_walk p)"

definition ir_want_debug_safety :: "CodeGen \<Rightarrow> IrInstruction \<Rightarrow> bool" where
  "ir_want_debug_safety g instruction =
     (if is_release_build g then False else want_debug_safety_walk (scope instruction))"

text \<open>The scopes that enclose an instruction, innermost first.\<close>

fun scope_chain :: "Scope option \<Rightarrow> Scope list" where
  "scope_chain None = []"
| "scope_chain (Some (Scope i set_node off di ct p)) = Scope i set_node off di ct p # scope_chain p"

definition sets_safety :: "Scope \<Rightarrow> bool" where
  "sets_safety s =
     ((scope_id s = ScopeIdBlock \<or> scope_id s = ScopeIdDecls) \<and> safety_set_node s)"

section \<open>Module operations\<close>

definition LLVMAddFunction :: "CodeGen \<Rightarrow> string \<Rightarrow> LLVMTypeRef \<Rightarrow> LLVMValueRef \<times> CodeGen" where
  "LLVMAddFunction g name fn_type =
     (LLVMFunction name,
      g\<lparr>llvm_module := (llvm_module g)
           \<lparr>module_functions := module_functions (llvm_module g) @
              [\<lparr>fd_name = name, fd_type = fn_type, fd_linkage = LLVMExternalLinkage,
                fd_call_conv = 0, fd_attrs = [], fd_string_attrs = [],
                fd_param_attrs = []\<rparr>]\<rparr>\<rparr>)"

text \<open>
  \<^verbatim>\<open>LLVMGetIntrinsicID\<close> answers from the library's table of intrinsics, which is not
  part of this program; the assertions on it are not modelled.
\<close>

definition LLVMAddGlobal :: "CodeGen \<Rightarrow> LLVMTypeRef \<Rightarrow> string \<Rightarrow> LLVMValueRef \<times> CodeGen" where
  "LLVMAddGlobal g ty name =
     (LLVMGlobal (length (module_globals (llvm_module g))),
      g\<lparr>llvm_module := (llvm_module g)
           \<lparr>module_globals := module_globals (llvm_module g) @
              [\<lparr>gv_name = name, gv_type = ty, gv_initializer = None,
                gv_linkage = LLVMExternalLinkage, gv_constant = False,
                gv_unnamed_addr = False\<rparr>]\<rparr>\<rparr>)"

text \<open>The setters act on a global of the module; on any other value they change nothing here.\<close>

definition update_global :: "CodeGen \<Rightarrow> LLVMValueRef \<Rightarrow> (LLVMGlobalVar \<Rightarrow> LLVMGlobalVar) \<Rightarrow> CodeGen" where
  "update_global g global f =
     (case global of
        LLVMGlobal n \<Rightarrow>
          if n < length (module_globals (llvm_module g))
          then g\<lparr>llvm_module := (llvm_module g)
                 \<lparr>module_globals := (module_globals (llvm_module g))
                                       [n := f (module_globals (llvm_module g) ! n)]\<rparr>\<rparr>
          else g
      | _ \<Rightarrow> g)"

definition LLVMSetInitializer :: "CodeGen \<Rightarrow> LLVMValueRef \<Rightarrow> LLVMValueRef \<Rightarrow> CodeGen" where
  "LLVMSetInitializer g global init = update_global g global (\<lambda>v. v\<lparr>gv_initializer := Some init\<rparr>)"

definition LLVMSetLinkage :: "CodeGen \<Rightarrow> LLVMValueRef \<Rightarrow> LLVMLinkage \<Rightarrow> CodeGen" where
  "LLVMSetLinkage g global linkage = update_global g global (\<lambda>v. v\<lparr>gv_linkage := linkage\<rparr>)"

definition LLVMSetGlobalConstant :: "CodeGen \<Rightarrow> LLVMValueRef \<Rightarrow> bool \<Rightarrow> CodeGen" where
  "LLVMSetGlobalConstant g global b = update_global g global (\<lambda>v. v\<lparr>gv_constant := b\<rparr>)"

definition LLVMSetUnnamedAddr :: "CodeGen \<Rightarrow> LLVMValueRef \<Rightarrow> bool \<Rightarrow> CodeGen" where
  "LLVMSetUnnamedAddr g global b = update_global g global (\<lambda>v. v\<lparr>gv_unnamed_addr := b\<rparr>)"

section \<open>Constants and operands\<close>

text \<open>
  The setters of a function act on the function of the module that was declared last under
  the name; on any other value they change nothing here.
\<close>

fun update_last_function ::
  "string \<Rightarrow> (LLVMFunctionDecl \<Rightarrow> LLVMFunctionDecl) \<Rightarrow> LLVMFunctionDecl list \<Rightarrow>
     LLVMFunctionDecl list" where
  "update_last_function name f [] = []"
| "update_last_function name f (d # ds) =
     (if fd_name d = name \<and> name \<notin> fd_name ` set ds then f d # ds
      else d # update_last_function name f ds)"

definition update_function ::
  "CodeGen \<Rightarrow> LLVMValueRef \<Rightarrow> (LLVMFunctionDecl \<Rightarrow> LLVMFunctionDecl) \<Rightarrow> CodeGen" where
  "update_function g fn f =
     (case fn of
        LLVMFunction name \<Rightarrow>
          g\<lparr>llvm_module := (llvm_module g)
               \<lparr>module_functions := update_last_function name f (module_functions (llvm_module g))\<rparr>\<rparr>
      | _ \<Rightarrow> g)"

definition LLVMAddFunctionAttr :: "CodeGen \<Rightarrow> LLVMValueRef \<Rightarrow> LLVMAttribute \<Rightarrow> CodeGen" where
  "LLVMAddFunctionAttr g fn attr = update_function g fn (\<lambda>d. d\<lparr>fd_attrs := fd_attrs d @ [attr]\<rparr>)"

definition ZigLLVMAddFunctionAttr ::
  "CodeGen \<Rightarrow> LLVMValueRef \<Rightarrow> string \<Rightarrow> string option \<Rightarrow> CodeGen" where
  "ZigLLVMAddFunctionAttr g fn name val =
     update_function g fn (\<lambda>d. d\<lparr>fd_string_attrs := fd_string_attrs d @ [(name, val)]\<rparr>)"

definition LLVMSetFunctionLinkage :: "CodeGen \<Rightarrow> LLVMValueRef \<Rightarrow> LLVMLinkage \<Rightarrow> CodeGen" where
  "LLVMSetFunctionLinkage g fn linkage = update_function g fn (\<lambda>d. d\<lparr>fd_linkage := linkage\<rparr>)"

definition LLVMSetFunctionCallConv :: "CodeGen \<Rightarrow> LLVMValueRef \<Rightarrow> nat \<Rightarrow> CodeGen" where
  "LLVMSetFunctionCallConv g fn cc = update_function g fn (\<lambda>d. d\<lparr>fd_call_conv := cc\<rparr>)"

text \<open>
  \<^verbatim>\<open>fn_llvm_value\<close>: the backend function of a function of the program, declared on first
  use. (\<^verbatim>\<open>LLVMSetLinkage\<close> on a function is \<open>LLVMSetFunctionLinkage\<close> here.)
\<close>

definition fn_llvm_value :: "CodeGen \<Rightarrow> FnTableEntry \<Rightarrow> LLVMValueRef \<times> CodeGen" where
  "fn_llvm_value g0 fn_table_entry =
     (if fn_table_llvm_value g0 (fn_id fn_table_entry) \<noteq> LLVMValueNull
      then (fn_table_llvm_value g0 (fn_id fn_table_entry), g0)
      else
        let symbol_name' =
              (if \<not> internal_linkage fn_table_entry then symbol_name fn_table_entry
               else ''_'' @ symbol_name fn_table_entry);
            fn_type = fn_type_entry fn_table_entry;
            (llvm_value, g) =
               LLVMAddFunction g0 symbol_name' (data_fn_raw_type_ref (type_data fn_type));
            g = g\<lparr>fn_table_llvm_value :=
                     (fn_table_llvm_value g)(fn_id fn_table_entry := llvm_value)\<rparr>;
            g = (case fn_inline fn_table_entry of
                   FnInlineAlways \<Rightarrow> LLVMAddFunctionAttr g llvm_value LLVMAlwaysInlineAttribute
                 | FnInlineNever \<Rightarrow> LLVMAddFunctionAttr g llvm_value LLVMNoInlineAttribute
                 | FnInlineAuto \<Rightarrow> g);
            g = (if is_naked (data_fn_fn_type_id (type_data fn_type))
                 then LLVMAddFunctionAttr g llvm_value LLVMNakedAttribute else g);
            g = LLVMSetFunctionLinkage g llvm_value
                  (if internal_linkage fn_table_entry then LLVMInternalLinkage
                   else LLVMExternalLinkage);
            g = (if type_id (return_type (data_fn_fn_type_id (type_data fn_type))) =
                      TypeTableEntryIdUnreachable
                 then LLVMAddFunctionAttr g llvm_value LLVMNoReturnAttribute else g);
            g = LLVMSetFunctionCallConv g llvm_value
                  (data_fn_calling_convention (type_data fn_type));
            g = (if \<not> is_extern (data_fn_fn_type_id (type_data fn_type))
                 then LLVMAddFunctionAttr g llvm_value LLVMNoUnwindAttribute else g);
            g = (if \<not> is_release_build g \<and> fn_inline fn_table_entry \<noteq> FnInlineAlways
                 then ZigLLVMAddFunctionAttr
                        (ZigLLVMAddFunctionAttr g llvm_value ''no-frame-pointer-elim''
                           (Some ''true''))
                        llvm_value ''no-frame-pointer-elim-non-leaf'' None
                 else g)
        in (llvm_value, g))"

text \<open>
  \<^verbatim>\<open>render_const_val_global\<close>: the constant gets its global on first use, and the global
  its initializer as soon as the constant has a value.
\<close>

definition render_const_val_global :: "CodeGen \<Rightarrow> TypeTableEntry \<Rightarrow> ConstExprValue \<Rightarrow> CodeGen" where
  "render_const_val_global g0 ty const_val =
     (let g = (if const_llvm_global g0 (const_id const_val) = LLVMValueNull then
                 (let (global_value, g) = LLVMAddGlobal g0 (type_ref ty) [];
                      g = LLVMSetLinkage g global_value LLVMInternalLinkage;
                      g = LLVMSetGlobalConstant g global_value True;
                      g = LLVMSetUnnamedAddr g global_value True
                  in g\<lparr>const_llvm_global := (const_llvm_global g)(const_id const_val := global_value)\<rparr>)
               else g0)
      in if const_llvm_value g (const_id const_val) \<noteq> LLVMValueNull
         then LLVMSetInitializer g (const_llvm_global g (const_id const_val))
                (const_llvm_value g (const_id const_val))
         else g)"

text \<open>
  The unsigned 64-bit arithmetic of the source where it can wrap: a difference, the
  conversion of an unsigned 64-bit number to a signed one and the negation of a signed
  one. An array count of the library is an \<^verbatim>\<open>unsigned\<close> of 32 bits.
\<close>

definition uint64_sub :: "nat \<Rightarrow> nat \<Rightarrow> nat" where
  "uint64_sub a b = (a + 2 ^ 64 - b mod 2 ^ 64) mod 2 ^ 64"

definition to_int64 :: "int \<Rightarrow> int" where
  "to_int64 x = (x + 2 ^ 63) mod 2 ^ 64 - 2 ^ 63"

definition to_unsigned :: "nat \<Rightarrow> nat" where
  "to_unsigned n = n mod 2 ^ 32"

text \<open>
  \<^verbatim>\<open>allocate\<close> is defined outside \<^verbatim>\<open>codegen.cpp\<close>: it asks \<^verbatim>\<open>calloc\<close> for \<open>count\<close> zeroed
  entries and panics when it gets none. Kept of it is the one case in which it is sure to
  get none, a byte count that does not fit \<^verbatim>\<open>size_t\<close> (64 bits; the entries here are
  pointers of 8 bytes).
\<close>

definition allocate :: "nat \<Rightarrow> 'a \<Rightarrow> abort + 'a list" where
  "allocate count zero = (if count * 8 < 2 ^ 64 then Inr (replicate count zero) else Inl ZigPanic)"

text \<open>
  \<^verbatim>\<open>gen_const_val\<close>, the constant emitter: \<open>gen_const_val\<close> is its first switch, on
  \<^verbatim>\<open>special\<close>, and \<open>gen_const_static\<close> its second, on the type's \<^verbatim>\<open>id\<close>, which is given the
  type and the member of its \<^verbatim>\<open>data\<close>. With them \<^verbatim>\<open>render_const_val\<close>, which the emitter
  calls for the target of a pointer constant, and the two loops of the emitter, over the
  fields of a struct constant and over the elements of an array constant (\<open>n\<close> elements
  are still to be emitted).
\<close>

function
  gen_const_val ::
    "CodeGen \<Rightarrow> TypeTableEntry \<Rightarrow> ConstExprValue \<Rightarrow> abort + (LLVMValueRef \<times> CodeGen)" and
  gen_const_static ::
    "CodeGen \<Rightarrow> TypeTableEntry \<Rightarrow> TypeTableEntryData \<Rightarrow> ConstExprValue \<Rightarrow>
       abort + (LLVMValueRef \<times> CodeGen)" and
  render_const_val :: "CodeGen \<Rightarrow> TypeTableEntry \<Rightarrow> ConstExprValue \<Rightarrow> abort + CodeGen" and
  gen_const_struct_fields ::
    "CodeGen \<Rightarrow> TypeStructField list \<Rightarrow> ConstExprValue list \<Rightarrow> LLVMValueRef list \<Rightarrow>
       abort + (LLVMValueRef list \<times> CodeGen)" and
  gen_const_array_elements ::
    "CodeGen \<Rightarrow> TypeTableEntry \<Rightarrow> ConstExprValue list \<Rightarrow> nat \<Rightarrow>
       abort + (LLVMValueRef list \<times> CodeGen)"
where
  "gen_const_val g (TypeTableEntry ty_ref zb hp ss ma td) const_val =
     (case special const_val of
        ConstValSpecialRuntime \<Rightarrow> Inl ZigUnreachable
      | ConstValSpecialUndef \<Rightarrow> Inr (LLVMGetUndef ty_ref, g)
      | ConstValSpecialZeroes \<Rightarrow> Inr (LLVMConstNull ty_ref, g)
      | ConstValSpecialStatic \<Rightarrow>
          gen_const_static g (TypeTableEntry ty_ref zb hp ss ma td) td const_val)"
| "gen_const_static g ty (TypeDataTypeDecl canonical_type) const_val =
     gen_const_val g canonical_type const_val"
| "gen_const_static g ty (TypeDataInt is_signed bits) const_val =
     (case const_data const_val of
        X_bignum bn \<Rightarrow> Inr (LLVMConstInt (type_ref ty) (bignum_to_twos_complement bn) False, g)
      | _ \<Rightarrow> Inl WrongUnionMember)"
| "gen_const_static g ty TypeDataPureError const_val =
     (case const_data const_val of
        X_pure_err None \<Rightarrow> Inl AssertionFailed
      | X_pure_err (Some err) \<Rightarrow>
          Inr (LLVMConstInt (type_ref (entry_pure_error g)) (err_value err) False, g)
      | _ \<Rightarrow> Inl WrongUnionMember)"
| "gen_const_static g ty (TypeDataFloat bits) const_val =
     (case const_data const_val of
        X_bignum bn \<Rightarrow>
          if kind_is_float bn then Inr (LLVMConstReal (type_ref ty) (x_float bn), g)
          else
            (let x = to_int64 (int (x_uint bn));
                 x = (if is_negative bn then to_int64 (- x) else x)
             in Inr (LLVMConstRealOfInt (type_ref ty) x, g))
      | _ \<Rightarrow> Inl WrongUnionMember)"
| "gen_const_static g ty TypeDataBool const_val =
     (case const_data const_val of
        X_bool b \<Rightarrow>
          Inr (if b then LLVMConstAllOnes LLVMInt1Type else LLVMConstNull LLVMInt1Type, g)
      | _ \<Rightarrow> Inl WrongUnionMember)"
| "gen_const_static g ty (TypeDataMaybe child_type) (ConstExprValue cid sp cd) =
     (case cd of
        X_maybe x_maybe \<Rightarrow>
          if type_id child_type = TypeTableEntryIdPointer \<or>
             type_id child_type = TypeTableEntryIdFn
          then
            (case x_maybe of
               Some v \<Rightarrow> gen_const_val g child_type v
             | None \<Rightarrow> Inr (LLVMConstNull (type_ref child_type), g))
          else
            (case x_maybe of
               Some v \<Rightarrow>
                 (case gen_const_val g child_type v of
                    Inl e \<Rightarrow> Inl e
                  | Inr (child_val, g') \<Rightarrow>
                      Inr (LLVMConstStruct [child_val, LLVMConstAllOnes LLVMInt1Type] False, g'))
             | None \<Rightarrow>
                 Inr (LLVMConstStruct [LLVMConstNull (type_ref child_type),
                                       LLVMConstNull LLVMInt1Type] False, g))
      | _ \<Rightarrow> Inl WrongUnionMember)"
| "gen_const_static g ty (TypeDataStruct struct_fields gen_field_count is_slice)
     (ConstExprValue cid sp cd) =
     (case cd of
        X_struct x_fields \<Rightarrow>
          (case allocate gen_field_count LLVMValueNull of
             Inl e \<Rightarrow> Inl e
           | Inr fields0 \<Rightarrow>
               (case gen_const_struct_fields g struct_fields x_fields fields0 of
                  Inl e \<Rightarrow> Inl e
                | Inr (vals, g') \<Rightarrow>
                    Inr (LLVMConstNamedStruct (type_ref ty)
                           (take (to_unsigned gen_field_count) vals), g')))
      | _ \<Rightarrow> Inl WrongUnionMember)"
| "gen_const_static g ty TypeDataUnion const_val = Inl ZigPanic"
| "gen_const_static g ty (TypeDataArray child_type len) (ConstExprValue cid sp cd) =
     (case cd of
        X_array elements x_size \<Rightarrow>
          (case allocate len LLVMValueNull of
             Inl e \<Rightarrow> Inl e
           | Inr values0 \<Rightarrow>
               (case gen_const_array_elements g child_type elements len of
                  Inl e \<Rightarrow> Inl e
                | Inr (vals, g') \<Rightarrow>
                    Inr (LLVMConstArray (type_ref child_type) (take (to_unsigned len) vals),
                         g')))
      | _ \<Rightarrow> Inl WrongUnionMember)"
| "gen_const_static g ty (TypeDataEnum tag_type gen_field_count union_type enum_fields)
     (ConstExprValue cid sp cd) =
     (case cd of
        X_enum tag payload \<Rightarrow>
          (let tag_value = LLVMConstInt (type_ref tag_type) tag False
           in if gen_field_count = 0 then Inr (tag_value, g)
              else if length enum_fields \<le> tag then Inl OutOfBounds
              else if enum_field_value (enum_fields ! tag) \<noteq> tag then Inl AssertionFailed
              else if type_has_bits (enum_field_type_entry (enum_fields ! tag)) then
                (let pad_bytes = uint64_sub (store_size union_type)
                                   (store_size (enum_field_type_entry (enum_fields ! tag)))
                 in case payload of
                      None \<Rightarrow> Inl NullPointer
                    | Some p \<Rightarrow>
                       (case gen_const_val g (enum_field_type_entry (enum_fields ! tag)) p of
                          Inl e \<Rightarrow> Inl e
                        | Inr (correctly_typed_value, g') \<Rightarrow>
                            Inr (LLVMConstNamedStruct (type_ref ty)
                                   [tag_value,
                                    if pad_bytes = 0 then correctly_typed_value
                                    else LLVMConstStruct
                                           [correctly_typed_value,
                                            LLVMGetUndef
                                              (LLVMArrayType LLVMInt8Type
                                                 (to_unsigned pad_bytes))] False],
                                 g')))
              else
                Inr (LLVMConstNamedStruct (type_ref ty)
                       [tag_value, LLVMGetUndef (type_ref union_type)], g))
      | _ \<Rightarrow> Inl WrongUnionMember)"
| "gen_const_static g ty (TypeDataFn fn_type_id raw_type_ref gen_param_info cc) const_val =
     (case const_data const_val of
        X_fn None \<Rightarrow> Inl NullPointer
      | X_fn (Some fn) \<Rightarrow> Inr (fn_llvm_value g fn)
      | _ \<Rightarrow> Inl WrongUnionMember)"
| "gen_const_static g ty (TypeDataPointer child_type is_const) (ConstExprValue cid sp cd) =
     (case cd of
        X_ptr None idx \<Rightarrow> Inl NullPointer
      | X_ptr (Some base_ptr) idx \<Rightarrow>
          (let const_val = ConstExprValue cid sp cd;
               g1 = render_const_val_global g ty const_val
           in case idx of
                None \<Rightarrow>
                  (case render_const_val g1 child_type base_ptr of
                     Inl e \<Rightarrow> Inl e
                   | Inr g2 \<Rightarrow>
                       (let g3 = render_const_val_global g2 child_type base_ptr;
                            g4 = g3\<lparr>const_llvm_value :=
                                      (const_llvm_value g3)
                                        (cid := const_llvm_global g3 (const_id base_ptr))\<rparr>;
                            g5 = render_const_val_global g4 ty const_val
                        in Inr (const_llvm_value g5 cid, g5)))
              | Some i \<Rightarrow>
                  (case const_data base_ptr of
                     X_array elements x_size \<Rightarrow>
                       (let array_type = array_type_table g1 child_type x_size
                        in case render_const_val g1 array_type base_ptr of
                             Inl e \<Rightarrow> Inl e
                           | Inr g2 \<Rightarrow>
                               (let g3 = render_const_val_global g2 array_type base_ptr;
                                    usize = entry_usize g3;
                                    ptr_val =
                                      LLVMConstInBoundsGEP
                                        (const_llvm_global g3 (const_id base_ptr))
                                        [LLVMConstNull (type_ref usize),
                                         LLVMConstInt (type_ref usize) i False];
                                    g4 = g3\<lparr>const_llvm_value :=
                                              (const_llvm_value g3)(cid := ptr_val)\<rparr>;
                                    g5 = render_const_val_global g4 ty const_val
                                in Inr (ptr_val, g5)))
                   | _ \<Rightarrow> Inl WrongUnionMember))
      | _ \<Rightarrow> Inl WrongUnionMember)"
| "gen_const_static g ty (TypeDataErrorUnion child_type) (ConstExprValue cid sp cd) =
     (case cd of
        X_err_union err payload \<Rightarrow>
          if \<not> type_has_bits child_type then
            Inr (LLVMConstInt (type_ref (err_tag_type g))
                   (case err of Some e \<Rightarrow> err_value e | None \<Rightarrow> 0) False, g)
          else
            (case err of
               Some e \<Rightarrow>
                 Inr (LLVMConstStruct
                        [LLVMConstInt (type_ref (err_tag_type g)) (err_value e) False,
                         LLVMConstNull (type_ref child_type)] False, g)
             | None \<Rightarrow>
                 (case payload of
                    None \<Rightarrow> Inl NullPointer
                  | Some p \<Rightarrow>
                     (case gen_const_val g child_type p of
                        Inl e \<Rightarrow> Inl e
                      | Inr (err_payload_value, g') \<Rightarrow>
                          Inr (LLVMConstStruct
                                 [LLVMConstNull (type_ref (err_tag_type g)),
                                  err_payload_value] False, g'))))
      | _ \<Rightarrow> Inl WrongUnionMember)"
| "gen_const_static g ty TypeDataVoid const_val = Inr (LLVMValueNull, g)"
| "gen_const_static g ty TypeDataInvalid const_val = Inl ZigUnreachable"
| "gen_const_static g ty TypeDataMetaType const_val = Inl ZigUnreachable"
| "gen_const_static g ty TypeDataUnreachable const_val = Inl ZigUnreachable"
| "gen_const_static g ty TypeDataNumLitFloat const_val = Inl ZigUnreachable"
| "gen_const_static g ty TypeDataNumLitInt const_val = Inl ZigUnreachable"
| "gen_const_static g ty TypeDataUndefLit const_val = Inl ZigUnreachable"
| "gen_const_static g ty TypeDataNullLit const_val = Inl ZigUnreachable"
| "gen_const_static g ty TypeDataNamespace const_val = Inl ZigUnreachable"
| "gen_const_static g ty TypeDataBlock const_val = Inl ZigUnreachable"
| "gen_const_static g ty TypeDataBoundFn const_val = Inl ZigUnreachable"
| "gen_const_static g ty TypeDataVar const_val = Inl ZigUnreachable"
| "render_const_val g ty const_val =
     (case (if const_llvm_value g (const_id const_val) = LLVMValueNull
            then (case gen_const_val g ty const_val of
                    Inl e \<Rightarrow> Inl e
                  | Inr (v, g') \<Rightarrow>
                      Inr (g'\<lparr>const_llvm_value := (const_llvm_value g')(const_id const_val := v)\<rparr>))
            else Inr g) of
        Inl e \<Rightarrow> Inl e
      | Inr g' \<Rightarrow>
          if const_llvm_global g' (const_id const_val) \<noteq> LLVMValueNull
          then Inr (LLVMSetInitializer g' (const_llvm_global g' (const_id const_val))
                      (const_llvm_value g' (const_id const_val)))
          else Inr g')"
| "gen_const_struct_fields g [] x_fields out = Inr (out, g)"
| "gen_const_struct_fields g (type_struct_field # rest) x_fields out =
     (case field_gen_index type_struct_field of
        None \<Rightarrow> gen_const_struct_fields g rest (tl x_fields) out
      | Some k \<Rightarrow>
          (case x_fields of
             [] \<Rightarrow> Inl OutOfBounds
           | x # xs \<Rightarrow>
               (case gen_const_val g (field_type_entry type_struct_field) x of
                  Inl e \<Rightarrow> Inl e
                | Inr (v, g') \<Rightarrow>
                    if length out \<le> k then Inl OutOfBounds
                    else gen_const_struct_fields g' rest xs (out[k := v]))))"
| "gen_const_array_elements g child_type elements 0 = Inr ([], g)"
| "gen_const_array_elements g child_type elements (Suc n) =
     (case elements of
        [] \<Rightarrow> Inl OutOfBounds
      | elem_value # rest \<Rightarrow>
          (case gen_const_val g child_type elem_value of
             Inl e \<Rightarrow> Inl e
           | Inr (v, g') \<Rightarrow>
               (case gen_const_array_elements g' child_type rest n of
                  Inl e \<Rightarrow> Inl e
                | Inr (vs, g'') \<Rightarrow> Inr (v # vs, g''))))"
  by pat_completeness auto

termination
  apply (relation "inv_image (less_than <*lex*> less_than)
     (\<lambda>x. case x of
            Inl (Inl (g, ty, cv)) \<Rightarrow> (size cv, 2 * size ty + 1)
          | Inl (Inr (g, ty, td, cv)) \<Rightarrow> (size cv, 2 * size td)
          | Inr (Inl (g, ty, cv)) \<Rightarrow> (size cv, 2 * size ty + 2)
          | Inr (Inr (Inl (g, tfs, cfs, out))) \<Rightarrow> (size_list size cfs, length tfs)
          | Inr (Inr (Inr (g, ty, es, n))) \<Rightarrow> (size_list size es, n))")
  apply auto
  subgoal for type_struct_field x_fields by (cases x_fields) auto
  done

declare render_const_val.simps [simp del]

definition ir_llvm_value :: "CodeGen \<Rightarrow> IrInstruction \<Rightarrow> abort + (LLVMValueRef \<times> CodeGen)" where
  "ir_llvm_value g0 instruction =
     (if \<not> type_has_bits (type_entry instruction) then Inr (LLVMValueNull, g0)
      else
        and_then
          (if instr_llvm_value g0 (debug_id instruction) = LLVMValueNull then
             (if special (static_value instruction) = ConstValSpecialRuntime then Inl AssertionFailed
              else
                and_then (render_const_val g0 (type_entry instruction) (static_value instruction))
                  (\<lambda>g.
                     let g = (if handle_is_ptr (type_entry instruction) then
                                (let g = render_const_val_global g (type_entry instruction)
                                           (static_value instruction)
                                 in g\<lparr>instr_llvm_value := (instr_llvm_value g)
                                        (debug_id instruction :=
                                           const_llvm_global g (const_id (static_value instruction)))\<rparr>)
                              else
                                g\<lparr>instr_llvm_value := (instr_llvm_value g)
                                     (debug_id instruction :=
                                        const_llvm_value g (const_id (static_value instruction)))\<rparr>)
                     in if instr_llvm_value g (debug_id instruction) = LLVMValueNull
                        then Inl AssertionFailed else Inr g))
           else Inr g0)
          (\<lambda>g. if special (static_value instruction) \<noteq> ConstValSpecialRuntime \<and>
                  type_id (type_entry instruction) = TypeTableEntryIdPointer
               then Inr (LLVMBuildLoad g (const_llvm_global g (const_id (static_value instruction))))
               else Inr (instr_llvm_value g (debug_id instruction), g)))"

section \<open>Overflow-checked arithmetic\<close>

datatype AddSubMul = AddSubMulAdd | AddSubMulSub | AddSubMulMul

fun add_sub_mul_index :: "AddSubMul \<Rightarrow> nat" where
  "add_sub_mul_index AddSubMulAdd = 0"
| "add_sub_mul_index AddSubMulSub = 1"
| "add_sub_mul_index AddSubMulMul = 2"

definition bits_index :: "nat \<Rightarrow> abort + nat" where
  "bits_index size_in_bits =
     (if size_in_bits = 8 then Inr 0
      else if size_in_bits = 16 then Inr 1
      else if size_in_bits = 32 then Inr 2
      else if size_in_bits = 64 then Inr 3
      else Inl ZigUnreachable)"

text \<open>The decimal digits that \<^verbatim>\<open>%zu\<close> prints.\<close>

fun decimal :: "nat \<Rightarrow> string" where
  "decimal n =
     (if n < 10 then [char_of (48 + n)]
      else decimal (n div 10) @ [char_of (48 + n mod 10)])"

declare decimal.simps [simp del]

definition get_arithmetic_overflow_fn ::
  "CodeGen \<Rightarrow> TypeTableEntry \<Rightarrow> string \<Rightarrow> string \<Rightarrow> abort + (LLVMValueRef \<times> CodeGen)" where
  "get_arithmetic_overflow_fn g ty signed_name unsigned_name =
     (if type_id ty \<noteq> TypeTableEntryIdInt then Inl AssertionFailed
      else
        let signed_str = (if integral_is_signed ty then signed_name else unsigned_name);
            llvm_name = ''llvm.'' @ signed_str @ ''.with.overflow.i'' @
                          decimal (integral_bit_count ty);
            return_struct_type = LLVMStructType [type_ref ty, LLVMInt1Type] False;
            fn_type = LLVMFunctionType return_struct_type
                        [type_ref ty, type_ref ty] False
        in Inr (LLVMAddFunction g llvm_name fn_type))"

definition get_int_overflow_fn ::
  "CodeGen \<Rightarrow> TypeTableEntry \<Rightarrow> AddSubMul \<Rightarrow> abort + (LLVMValueRef \<times> CodeGen)" where
  "get_int_overflow_fn g ty add_sub_mul =
     (if type_id ty \<noteq> TypeTableEntryIdInt then Inl AssertionFailed
      else
        let index0 = (if integral_is_signed ty then 0 else 1);
            index1 = add_sub_mul_index add_sub_mul
        in and_then (bits_index (integral_bit_count ty))
             (\<lambda>index2.
                if int_overflow_fns g index0 index1 index2 \<noteq> LLVMValueNull
                then Inr (int_overflow_fns g index0 index1 index2, g)
                else
                  and_then
                    (case add_sub_mul of
                       AddSubMulAdd \<Rightarrow> get_arithmetic_overflow_fn g ty ''sadd'' ''uadd''
                     | AddSubMulSub \<Rightarrow> get_arithmetic_overflow_fn g ty ''ssub'' ''usub''
                     | AddSubMulMul \<Rightarrow> get_arithmetic_overflow_fn g ty ''smul'' ''umul'')
                    (\<lambda>(fn, g).
                       Inr (fn, g\<lparr>int_overflow_fns :=
                                   (int_overflow_fns g)
                                     (index0 := (int_overflow_fns g index0)
                                        (index1 := (int_overflow_fns g index0 index1)
                                           (index2 := fn)))\<rparr>))))"



section \<open>Binary operations\<close>








section \<open>Debug scopes and locations\<close>

text \<open>
  The calls on the debug-info builder are not recorded, with one exception, the
  debug-declare of a variable. What is kept of \<^verbatim>\<open>get_di_scope\<close> is whether it returns: a
  scope already resolved returns at once, a \<^verbatim>\<open>CImport\<close> scope is unreachable, and the
  other scopes assert what they need and resolve their parent. (\<^verbatim>\<open>get_scope_import\<close> is
  outside \<^verbatim>\<open>codegen.cpp\<close>.)
\<close>

fun get_di_scope :: "Scope \<Rightarrow> abort + unit" where
  "get_di_scope (Scope i set_node off di ct p) =
     (if di then Inr ()
      else if i = ScopeIdCImport then Inl ZigUnreachable
      else if i = ScopeIdDecls then
        (case p of
           Some ps \<Rightarrow> if ct then Inr () else Inl AssertionFailed
         | None \<Rightarrow> Inr ())
      else
        (case p of
           None \<Rightarrow> Inl AssertionFailed
         | Some ps \<Rightarrow> get_di_scope ps))"


text \<open>
  \<^verbatim>\<open>ZigLLVMInsertDeclareAtEnd\<close> puts the declare at the end of the given block; it is
  not built through the builder and takes no instruction number from it (it is recorded
  under the number of the next instruction).
\<close>

definition ZigLLVMInsertDeclareAtEnd ::
  "CodeGen \<Rightarrow> LLVMValueRef \<Rightarrow> LLVMValueRef \<Rightarrow> nat \<Rightarrow> nat \<Rightarrow> LLVMBasicBlockRef \<Rightarrow> CodeGen" where
  "ZigLLVMInsertDeclareAtEnd g storage var_info ln col block =
     (case block of
        None \<Rightarrow> g
      | Some k \<Rightarrow>
          g\<lparr>builder := (builder g)
             \<lparr>blocks := (blocks (builder g))
                (k := (blocks (builder g) k)
                   \<lparr>bb_instrs := bb_instrs (blocks (builder g) k) @
                      [(next_instr (builder g), InstDbgDeclare storage var_info ln col)]\<rparr>)\<rparr>\<rparr>)"

definition gen_var_debug_decl :: "CodeGen \<Rightarrow> VariableTableEntry \<Rightarrow> abort + CodeGen" where
  "gen_var_debug_decl g v =
     (case parent_scope v of
        None \<Rightarrow> Inl NullPointer
      | Some sc \<Rightarrow>
          and_then (get_di_scope sc)
            (\<lambda>u. Inr (ZigLLVMInsertDeclareAtEnd g (var_value_ref g (var_id v)) (di_loc_var v)
                        (line (decl_node v) + 1) (column (decl_node v) + 1)
                        (LLVMGetInsertBlock g))))"

section \<open>Assignments and variable declarations\<close>

definition gen_struct_memcpy ::
  "CodeGen \<Rightarrow> LLVMValueRef \<Rightarrow> LLVMValueRef \<Rightarrow> TypeTableEntry \<Rightarrow> abort + (LLVMValueRef \<times> CodeGen)" where
  "gen_struct_memcpy g src dest ty =
     (if \<not> handle_is_ptr ty then Inl AssertionFailed
      else
        let ptr_u8 = LLVMPointerType LLVMInt8Type 0;
            (src_ptr, g) = LLVMBuildBitCast g src ptr_u8;
            (dest_ptr, g) = LLVMBuildBitCast g dest ptr_u8
        in if store_size ty = 0 \<or> memcpy_align ty = 0 then Inl AssertionFailed
           else Inr (LLVMBuildCall g (memcpy_fn_val g)
                  [dest_ptr, src_ptr,
                   LLVMConstInt (type_ref (entry_usize g)) (store_size ty) False,
                   LLVMConstInt LLVMInt32Type (memcpy_align ty) False,
                   LLVMConstNull LLVMInt1Type]))"

text \<open>
  (The two assertions of \<^verbatim>\<open>gen_struct_memcpy\<close> that the source and the destination have
  pointer type ask the library for the kind of a value's type, which is not modelled.)
\<close>

definition gen_assign_raw ::
  "CodeGen \<Rightarrow> LLVMValueRef \<Rightarrow> LLVMValueRef \<Rightarrow> TypeTableEntry \<Rightarrow> TypeTableEntry \<Rightarrow>
     abort + (LLVMValueRef \<times> CodeGen)" where
  "gen_assign_raw g target_ref val op1_type op2_type =
     (if \<not> type_has_bits op1_type then Inr (LLVMValueNull, g)
      else if handle_is_ptr op1_type then
        (if op1_type \<noteq> op2_type then Inl AssertionFailed
         else gen_struct_memcpy g val target_ref op1_type)
      else (let (st, g) = LLVMBuildStore g val target_ref in Inr (LLVMValueNull, g)))"

text \<open>
  The first half of \<^verbatim>\<open>ir_render_decl_var\<close>, after its two early returns: the initial
  value is assigned, or the slot is filled (with \<open>0xaa\<close> when safety is wanted, with zero
  when zeroes are wanted), or nothing is written.
\<close>

definition decl_var_initialize :: "CodeGen \<Rightarrow> IrInstructionDeclVar \<Rightarrow> abort + CodeGen" where
  "decl_var_initialize g0 decl_var_instruction =
     (let v = var decl_var_instruction;
          init = init_value decl_var_instruction;
          have_init_expr = (special (static_value init) = ConstValSpecialRuntime \<or>
                            special (static_value init) = ConstValSpecialStatic);
          want_zeroes = (special (static_value init) = ConstValSpecialZeroes)
      in if have_init_expr then
           and_then (ir_llvm_value g0 init)
             (\<lambda>(val, g).
                and_then (gen_assign_raw g (var_value_ref g (var_id v)) val
                            (var_type v) (type_entry init))
                  (\<lambda>(r, g). Inr g))
         else
           (let ignore_uninit = False;
                want_safe = ir_want_debug_safety g0 (decl_var_base decl_var_instruction)
            in if \<not> ignore_uninit \<and> (want_safe \<or> want_zeroes) then
                 (let ptr_u8 = LLVMPointerType LLVMInt8Type 0;
                      fill_char = LLVMConstInt LLVMInt8Type (if want_zeroes then 0 else 170) False;
                      (dest_ptr, g) = LLVMBuildBitCast g0 (var_value_ref g0 (var_id v)) ptr_u8;
                      byte_count = LLVMConstInt (type_ref (entry_usize g))
                                     (store_size (var_type v)) False;
                      align_in_bytes = LLVMConstInt LLVMInt32Type (memcpy_align (var_type v)) False;
                      (call, g) = LLVMBuildCall g (memset_fn_val g)
                                    [dest_ptr, fill_char, byte_count, align_in_bytes,
                                     LLVMConstNull LLVMInt1Type]
                  in Inr g)
               else Inr g0))"

definition ir_render_decl_var ::
  "CodeGen \<Rightarrow> IrInstructionDeclVar \<Rightarrow> abort + (LLVMValueRef \<times> CodeGen)" where
  "ir_render_decl_var g decl_var_instruction =
     (if \<not> type_has_bits (var_type (var decl_var_instruction)) then Inr (LLVMValueNull, g)
      else if var_ref_count (var decl_var_instruction) = 0 then Inr (LLVMValueNull, g)
      else
        and_then (decl_var_initialize g decl_var_instruction)
          (\<lambda>g. and_then (gen_var_debug_decl g (var decl_var_instruction))
                 (\<lambda>g. Inr (LLVMValueNull, g))))"

section \<open>Control flow\<close>




subsection \<open>Phi\<close>






section \<open>Error names\<close>


section \<open>Inline assembly\<close>










section \<open>Lowering a function body\<close>





section \<open>The error-name table\<close>

text \<open>
  The loop of \<^verbatim>\<open>generate_error_name_table\<close> over the declarations after the first: for
  each, a private constant global holding the name, and the slice of it.
\<close>

fun error_name_values ::
  "CodeGen \<Rightarrow> AstNode option list \<Rightarrow> LLVMValueRef list \<Rightarrow> abort + (LLVMValueRef list \<times> CodeGen)" where
  "error_name_values g [] vals = Inr (vals, g)"
| "error_name_values g (d # ds) vals =
     (case d of
        None \<Rightarrow> Inl NullPointer
      | Some error_decl_node \<Rightarrow>
         (case data error_decl_node of
            NodeErrorValueDecl name \<Rightarrow>
              (let str_init = LLVMConstString name (length name) True;
                   (str_global, g) = LLVMAddGlobal g (LLVMTypeOf str_init) [];
                   g = LLVMSetInitializer g str_global str_init;
                   g = LLVMSetLinkage g str_global LLVMPrivateLinkage;
                   g = LLVMSetGlobalConstant g str_global True;
                   g = LLVMSetUnnamedAddr g str_global True;
                   fields = [LLVMConstBitCast str_global (type_ref (u8_ptr_type g)),
                             LLVMConstInt (type_ref (entry_usize g)) (length name) False]
               in error_name_values g ds
                    (vals @ [LLVMConstNamedStruct (type_ref (slice_u8_type g)) fields]))
          | _ \<Rightarrow> Inl AssertionFailed))"

text \<open>(The function; the flag of the same name is a field of the context.)\<close>

definition generate_error_name_table_fn :: "CodeGen \<Rightarrow> abort + CodeGen" where
  "generate_error_name_table_fn g0 =
     (if \<not> generate_error_name_table g0 \<or> length (error_decls g0) = 1 then Inr g0
      else if \<not> 0 < length (error_decls g0) then Inl AssertionFailed
      else
        and_then
          (error_name_values g0 (tl (error_decls g0)) [LLVMGetUndef (type_ref (slice_u8_type g0))])
          (\<lambda>(vals, g).
             let err_name_table_init = LLVMConstArray (type_ref (slice_u8_type g)) vals;
                 (table, g) = LLVMAddGlobal g (LLVMTypeOf err_name_table_init) ''err_name_table'';
                 g = g\<lparr>err_name_table := table\<rparr>;
                 g = LLVMSetInitializer g (err_name_table g) err_name_table_init;
                 g = LLVMSetLinkage g (err_name_table g) LLVMPrivateLinkage;
                 g = LLVMSetGlobalConstant g (err_name_table g) True;
                 g = LLVMSetUnnamedAddr g (err_name_table g) True
             in Inr g))"

section \<open>Builtin intrinsics\<close>

text \<open>
  The part of \<^verbatim>\<open>define_builtin_fns\<close> that declares the intrinsics the lowering calls:
  the trap, \<open>memcpy\<close> and \<open>memset\<close>. (The table of builtin function names and the
  return-address and frame-address intrinsics are left out.)
\<close>

definition define_builtin_fns :: "CodeGen \<Rightarrow> CodeGen" where
  "define_builtin_fns g =
     (let (trap, g) = LLVMAddFunction g ''llvm.debugtrap'' (LLVMFunctionType LLVMVoidType [] False);
          g = g\<lparr>trap_fn_val := trap\<rparr>;
          (memcpy, g) =
             LLVMAddFunction g (''llvm.memcpy.p0i8.p0i8.i'' @ decimal (pointer_size_bytes g * 8))
               (LLVMFunctionType LLVMVoidType
                  [LLVMPointerType LLVMInt8Type 0, LLVMPointerType LLVMInt8Type 0,
                   LLVMIntType (pointer_size_bytes g * 8), LLVMInt32Type, LLVMInt1Type] False);
          g = g\<lparr>memcpy_fn_val := memcpy\<rparr>;
          (memset, g) =
             LLVMAddFunction g (''llvm.memset.p0i8.i'' @ decimal (pointer_size_bytes g * 8))
               (LLVMFunctionType LLVMVoidType
                  [LLVMPointerType LLVMInt8Type 0, LLVMInt8Type,
                   LLVMIntType (pointer_size_bytes g * 8), LLVMInt32Type, LLVMInt1Type] False)
      in g\<lparr>memset_fn_val := memset\<rparr>)"

section \<open>What lowering leaves alone\<close>

text \<open>
  Two contexts agree on everything but the builder, the module and the handles of IR
  objects.
\<close>

definition same_context :: "CodeGen \<Rightarrow> CodeGen \<Rightarrow> bool" where
  "same_context g g' =
     (cur_fn_val g' = cur_fn_val g \<and> trap_fn_val g' = trap_fn_val g \<and>
      error_decls g' = error_decls g \<and>
      generate_error_name_table g' = generate_error_name_table g \<and>
      err_name_table g' = err_name_table g \<and> entry_usize g' = entry_usize g \<and>
      is_release_build g' = is_release_build g \<and> is_test_build g' = is_test_build g \<and>
      memset_fn_val g' = memset_fn_val g \<and> memcpy_fn_val g' = memcpy_fn_val g \<and>
      var_value_ref g' = var_value_ref g \<and> int_overflow_fns g' = int_overflow_fns g)"

text \<open>
  The context without what the emission of constants changes: the module and the cached
  handles of constants and functions.
\<close>

definition const_frame :: "CodeGen \<Rightarrow> CodeGen" where
  "const_frame g =
     g\<lparr>llvm_module := \<lparr>module_globals = [], module_functions = []\<rparr>,
       const_llvm_value := (\<lambda>i. LLVMValueNull),
       const_llvm_global := (\<lambda>i. LLVMValueNull),
       fn_table_llvm_value := (\<lambda>i. LLVMValueNull)\<rparr>"

section \<open>The shapes of the emitted checks\<close>

text \<open>
  What the specification says the safety helpers emit, written as the builder they leave
  behind. \<open>b\<close> is the builder before, \<open>ib\<close> the block it is positioned in, \<open>fn\<close> the
  function under construction and \<open>trap\<close> the trap intrinsic.
\<close>

text \<open>One compare and one conditional branch; the fail block traps.\<close>

definition one_bounds_check ::
  "LLVMBuilder \<Rightarrow> nat \<Rightarrow> LLVMValueRef \<Rightarrow> LLVMValueRef \<Rightarrow>
     LLVMValueRef \<Rightarrow> LLVMIntPredicate \<Rightarrow> LLVMValueRef \<Rightarrow> LLVMBuilder" where
  "one_bounds_check b ib fn trap target_val pred bound =
     b\<lparr> blocks := (blocks b)
          (ib := (blocks b ib)
             \<lparr>bb_instrs := bb_instrs (blocks b ib) @
                [(next_instr b, InstICmp pred target_val bound),
                 (next_instr b + 1,
                  InstCondBr (LLVMInstruction (next_instr b))
                    (Some (num_blocks b + 1)) (Some (num_blocks b)))]\<rparr>,
           num_blocks b :=
             \<lparr>bb_parent = fn, bb_name = ''BoundsCheckFail'',
              bb_instrs = [(next_instr b + 2, InstCall trap []),
                           (next_instr b + 3, InstUnreachable)]\<rparr>,
           num_blocks b + 1 :=
             \<lparr>bb_parent = fn, bb_name = ''BoundsCheckOk'', bb_instrs = []\<rparr>),
        num_blocks := num_blocks b + 2,
        insert_block := Some (num_blocks b + 1),
        next_instr := next_instr b + 4 \<rparr>"

text \<open>
  The lower compare in the current block; the upper compare in the block the first
  branch takes when the lower check holds; both branches fail into the same block.
\<close>

definition two_bounds_checks ::
  "LLVMBuilder \<Rightarrow> nat \<Rightarrow> LLVMValueRef \<Rightarrow> LLVMValueRef \<Rightarrow> LLVMValueRef \<Rightarrow>
     LLVMIntPredicate \<Rightarrow> LLVMValueRef \<Rightarrow> LLVMIntPredicate \<Rightarrow> LLVMValueRef \<Rightarrow> LLVMBuilder" where
  "two_bounds_checks b ib fn trap target_val lower_pred lower_value upper_pred upper_value =
     b\<lparr> blocks := (blocks b)
          (ib := (blocks b ib)
             \<lparr>bb_instrs := bb_instrs (blocks b ib) @
                [(next_instr b, InstICmp lower_pred target_val lower_value),
                 (next_instr b + 1,
                  InstCondBr (LLVMInstruction (next_instr b))
                    (Some (num_blocks b + 2)) (Some (num_blocks b)))]\<rparr>,
           num_blocks b :=
             \<lparr>bb_parent = fn, bb_name = ''BoundsCheckFail'',
              bb_instrs = [(next_instr b + 2, InstCall trap []),
                           (next_instr b + 3, InstUnreachable)]\<rparr>,
           num_blocks b + 1 :=
             \<lparr>bb_parent = fn, bb_name = ''BoundsCheckOk'', bb_instrs = []\<rparr>,
           num_blocks b + 2 :=
             \<lparr>bb_parent = fn, bb_name = ''FirstBoundsCheckOk'',
              bb_instrs = [(next_instr b + 4, InstICmp upper_pred target_val upper_value),
                           (next_instr b + 5,
                            InstCondBr (LLVMInstruction (next_instr b + 4))
                              (Some (num_blocks b + 1)) (Some (num_blocks b)))]\<rparr>),
        num_blocks := num_blocks b + 3,
        insert_block := Some (num_blocks b + 1),
        next_instr := next_instr b + 6 \<rparr>"


text \<open>
  The error-name table as the specification describes it: the global that holds a name,
  the slice of the name in the global \<open>k\<close>, and the name of a declaration.
\<close>

definition name_global :: "string \<Rightarrow> LLVMGlobalVar" where
  "name_global name =
     \<lparr> gv_name = [], gv_type = LLVMTypeOf (LLVMConstString name (length name) True),
       gv_initializer = Some (LLVMConstString name (length name) True),
       gv_linkage = LLVMPrivateLinkage, gv_constant = True, gv_unnamed_addr = True \<rparr>"

definition name_slice :: "CodeGen \<Rightarrow> nat \<Rightarrow> string \<Rightarrow> LLVMValueRef" where
  "name_slice g k name =
     LLVMConstNamedStruct (type_ref (slice_u8_type g))
       [LLVMConstBitCast (LLVMGlobal k) (type_ref (u8_ptr_type g)),
        LLVMConstInt (type_ref (entry_usize g)) (length name) False]"

fun decl_name :: "AstNode option \<Rightarrow> string" where
  "decl_name (Some n) = (case data n of NodeErrorValueDecl name \<Rightarrow> name | _ \<Rightarrow> [])"
| "decl_name None = []"

definition is_error_decl :: "AstNode option \<Rightarrow> bool" where
  "is_error_decl d = (case d of Some n \<Rightarrow> node_type n = NodeTypeErrorValueDecl | None \<Rightarrow> False)"



section \<open>Example inputs\<close>

text \<open>Concrete inputs on which the theorems below are instantiated.\<close>

definition example_target :: ZigTarget where
  "example_target = \<lparr>arch = ZigLLVM_other_arch 0, os = ZigLLVM_other_os 0\<rparr>"

definition example_i32 :: TypeTableEntry where
  "example_i32 =
     TypeTableEntry (LLVMIntType 32) False False 4 4 (TypeDataInt True 32)"

definition example_usize :: TypeTableEntry where
  "example_usize =
     TypeTableEntry (LLVMIntType 64) False False 8 8 (TypeDataInt False 64)"

text \<open>A context after initialisation, with one function under construction and the
  builder at the end of its entry block.\<close>

definition example_codegen :: CodeGen where
  "example_codegen =
     (let g = (codegen_create (\<lambda>k. None) example_target (Some example_target))
                \<lparr>pointer_size_bytes := 8, entry_usize := example_usize\<rparr>;
          g = define_builtin_fns g;
          (fn, g) = LLVMAddFunction g ''f'' (LLVMFunctionType LLVMVoidType [] False);
          g = g\<lparr>cur_fn_val := fn\<rparr>;
          (entry, g) = LLVMAppendBasicBlock g fn ''Entry''
      in LLVMPositionBuilderAtEnd g entry)"

text \<open>The same, with the values of instructions 11 and 12 already computed.\<close>

definition example_codegen_operands :: CodeGen where
  "example_codegen_operands =
     example_codegen
       \<lparr>instr_llvm_value :=
          (\<lambda>i. if i = 11 then LLVMValueHandle 101
               else if i = 12 then LLVMValueHandle 102 else LLVMValueNull)\<rparr>"

text \<open>An instruction computed at run time, and one with a static integer value.\<close>

definition example_runtime :: "nat \<Rightarrow> TypeTableEntry \<Rightarrow> Scope option \<Rightarrow> IrInstruction" where
  "example_runtime n ty sc =
     \<lparr> debug_id = n, scope = sc, source_node = Some \<lparr>line = 0, column = 0, data = NodeOther\<rparr>,
       type_entry = ty,
       static_value = ConstExprValue n ConstValSpecialRuntime X_none,
       ref_count = 1, has_side_effects = False \<rparr>"

definition example_static :: "nat \<Rightarrow> TypeTableEntry \<Rightarrow> nat \<Rightarrow> IrInstruction" where
  "example_static n ty v =
     \<lparr> debug_id = n, scope = None, source_node = Some \<lparr>line = 0, column = 0, data = NodeOther\<rparr>,
       type_entry = ty,
       static_value =
         ConstExprValue n ConstValSpecialStatic
           (X_bignum \<lparr>kind_is_float = False, is_negative = False, x_uint = v, x_float = 0,
                       bignum_to_twos_complement = v\<rparr>),
       ref_count = 1, has_side_effects = False \<rparr>"


text \<open>A local variable of type \<open>i32\<close> in a block whose debug scope is resolved, its
  declaration with an undefined initial value, and the same for a variable never used.\<close>

definition example_var :: "nat \<Rightarrow> VariableTableEntry" where
  "example_var uses =
     \<lparr> var_id = 21, var_name = ''x'', var_type = example_i32, var_ref_count = uses,
       decl_node = \<lparr>line = 4, column = 8, data = NodeVariableDeclaration False\<rparr>,
       parent_scope = Some (Scope ScopeIdBlock False False True False None),
       di_loc_var = LLVMValueHandle 210, src_arg_index = None, gen_arg_index = None,
       is_inline = False \<rparr>"

definition example_undef :: IrInstruction where
  "example_undef =
     \<lparr> debug_id = 22, scope = None, source_node = Some \<lparr>line = 4, column = 16, data = NodeOther\<rparr>,
       type_entry = example_i32,
       static_value = ConstExprValue 22 ConstValSpecialUndef X_none,
       ref_count = 1, has_side_effects = False \<rparr>"

definition example_decl_var :: "nat \<Rightarrow> IrInstructionDeclVar" where
  "example_decl_var uses =
     \<lparr> decl_var_base = example_runtime 23 example_i32 None, var = example_var uses,
       init_value = example_undef \<rparr>"

text \<open>A program with two declared errors, and the name lookup of the error computed by
  instruction 11.\<close>

definition example_error_decls :: "AstNode option list" where
  "example_error_decls =
     [None,
      Some \<lparr>line = 1, column = 0, data = NodeErrorValueDecl ''OutOfMemory''\<rparr>,
      Some \<lparr>line = 2, column = 0, data = NodeErrorValueDecl ''Overflow''\<rparr>]"

definition example_codegen_errors :: CodeGen where
  "example_codegen_errors =
     example_codegen_operands
       \<lparr>generate_error_name_table := True, error_decls := example_error_decls\<rparr>"











section \<open>Properties\<close>

subsection \<open>Basic facts\<close>

lemmas builder_defs = builder_insert_def
  LLVMAppendBasicBlock_def LLVMPositionBuilderAtEnd_def
  LLVMGetInsertBlock_def LLVMBuildCall_def LLVMBuildUnreachable_def LLVMBuildICmp_def
  LLVMBuildFCmp_def LLVMBuildCondBr_def LLVMBuildBr_def LLVMBuildExtractValue_def
  LLVMBuildBinary_def LLVMBuildLoad_def LLVMBuildStore_def LLVMBuildBitCast_def
  LLVMBuildInBoundsGEP_def

lemma and_then_weak_cong [cong]: "r = r' \<Longrightarrow> and_then r f = and_then r' f"
  by simp

lemma and_then_simps [simp]:
  "and_then (Inr x) f = f x"
  "and_then (Inl e) f = Inl e"
  by (simp_all add: and_then_def)

lemma insert_instr_simps [simp]:
  "next_instr (insert_instr b op) = Suc (next_instr b)"
  "insert_block (insert_instr b op) = insert_block b"
  "num_blocks (insert_instr b op) = num_blocks b"
  "LLVMBuilder.more (insert_instr b op) = LLVMBuilder.more b"
  by (simp_all add: insert_instr_def)

lemma append_block_simps [simp]:
  "next_instr (append_block b fn name) = next_instr b"
  "insert_block (append_block b fn name) = insert_block b"
  "num_blocks (append_block b fn name) = Suc (num_blocks b)"
  "LLVMBuilder.more (append_block b fn name) = LLVMBuilder.more b"
  by (simp_all add: append_block_def)

lemma blocks_insert_instr:
  "blocks (insert_instr b op) k =
     (if insert_block b = Some k
      then (blocks b k)\<lparr>bb_instrs := bb_instrs (blocks b k) @ [(next_instr b, op)]\<rparr>
      else blocks b k)"
  by (simp add: insert_instr_def split: option.splits)

lemma blocks_append_block:
  "blocks (append_block b fn name) k =
     (if k = num_blocks b then \<lparr>bb_parent = fn, bb_name = name, bb_instrs = []\<rparr> else blocks b k)"
  by (simp add: append_block_def)

lemmas blocks_simps = blocks_insert_instr blocks_append_block

lemma builder_update_cong: "a = b \<Longrightarrow> g\<lparr>builder := a\<rparr> = g\<lparr>builder := b\<rparr>"
  by simp

lemma example_codegen_simps:
  "builder example_codegen =
     \<lparr>blocks = (\<lambda>b. \<lparr>bb_parent = LLVMValueNull, bb_name = [], bb_instrs = []\<rparr>)
               (0 := \<lparr>bb_parent = LLVMFunction ''f'', bb_name = ''Entry'', bb_instrs = []\<rparr>),
      num_blocks = 1, insert_block = Some 0, next_instr = 0\<rparr>"
  "cur_fn_val example_codegen = LLVMFunction ''f''"
  "trap_fn_val example_codegen = LLVMFunction ''llvm.debugtrap''"
  "is_release_build example_codegen = False"
  "is_test_build example_codegen = False"
  "int_overflow_fns example_codegen = (\<lambda>i j k. LLVMValueNull)"
  "instr_llvm_value example_codegen = (\<lambda>i. LLVMValueNull)"
  "const_llvm_value example_codegen = (\<lambda>i. LLVMValueNull)"
  "const_llvm_global example_codegen = (\<lambda>i. LLVMValueNull)"
  "error_decls example_codegen = [None]"
  "entry_usize example_codegen = example_usize"
  "err_name_table example_codegen = LLVMValueNull"
  "var_value_ref example_codegen = (\<lambda>i. LLVMValueNull)"
  "generate_error_name_table example_codegen = False"
  "test_fn_count example_codegen = 0"
  by (simp_all add: example_codegen_def codegen_create_def codegen_zeroed_def
        define_builtin_fns_def LLVMAddFunction_def builder_defs append_block_def Let_def
        example_target_def)

subsection \<open>Safety predicate\<close>

lemma want_debug_safety_walk_find:
  "want_debug_safety_walk sc =
     (case find sets_safety (scope_chain sc) of None \<Rightarrow> True | Some s \<Rightarrow> \<not> safety_off s)"
  by (induction sc rule: want_debug_safety_walk.induct) (auto simp: sets_safety_def)

text \<open>
  C1 (as amended). In a release build the predicate is false whatever the scopes say.
  Otherwise the nearest enclosing Block or Decls scope whose safety flag is set decides:
  the predicate is the negation of that scope's \<open>safety_off\<close>; when no enclosing Block
  or Decls scope sets the flag, the predicate is true.
\<close>

theorem ir_want_debug_safety_nearest_scope:
  "ir_want_debug_safety g instruction =
     (\<not> is_release_build g \<and>
      (case find sets_safety (scope_chain (scope instruction)) of
         None \<Rightarrow> True
       | Some s \<Rightarrow> \<not> safety_off s))"
  unfolding ir_want_debug_safety_def want_debug_safety_walk_find by simp

text \<open>
  C1 as stated fails: in a release build, an instruction directly inside a Block scope
  that explicitly sets safety on (\<open>safety_set_node\<close> set, \<open>safety_off\<close> false) gets false.
\<close>

theorem ir_want_debug_safety_release_counterexample:
  "is_release_build (codegen_set_is_release example_codegen True)
   \<and> find sets_safety
        (scope_chain (scope (example_runtime 0 example_i32 (Some (Scope ScopeIdBlock True False False False None)))))
       = Some (Scope ScopeIdBlock True False False False None)
   \<and> \<not> safety_off (Scope ScopeIdBlock True False False False None)
   \<and> \<not> ir_want_debug_safety (codegen_set_is_release example_codegen True)
         (example_runtime 0 example_i32 (Some (Scope ScopeIdBlock True False False False None)))"
  by (simp add: ir_want_debug_safety_def codegen_set_is_release_def sets_safety_def
        example_runtime_def)

subsection \<open>Deployment targets\<close>

text \<open>
  C7. In a native compilation for a Darwin system: when both
  \<^verbatim>\<open>MACOSX_DEPLOYMENT_TARGET\<close> and \<^verbatim>\<open>IPHONEOS_DEPLOYMENT_TARGET\<close> are set, the iOS value
  is recorded and the macOS value dropped exactly when the architecture is arm, aarch64
  or thumb, and otherwise the macOS value is recorded and the iOS value dropped; when
  only one of them is set, that one is recorded.
\<close>

theorem init_darwin_native_choice:
  "os nt = ZigLLVM_Darwin \<or> os nt = ZigLLVM_MacOSX \<or> os nt = ZigLLVM_IOS \<Longrightarrow>
   (mmacosx_version_min (codegen_create getenv nt None),
    mios_version_min (codegen_create getenv nt None)) =
     (if getenv ''MACOSX_DEPLOYMENT_TARGET'' \<noteq> None \<and>
         getenv ''IPHONEOS_DEPLOYMENT_TARGET'' \<noteq> None
      then (if arch nt = ZigLLVM_arm \<or> arch nt = ZigLLVM_aarch64 \<or> arch nt = ZigLLVM_thumb
            then (None, getenv ''IPHONEOS_DEPLOYMENT_TARGET'')
            else (getenv ''MACOSX_DEPLOYMENT_TARGET'', None))
      else if getenv ''MACOSX_DEPLOYMENT_TARGET'' \<noteq> None
      then (getenv ''MACOSX_DEPLOYMENT_TARGET'', None)
      else (None, getenv ''IPHONEOS_DEPLOYMENT_TARGET''))"
  by (auto simp: codegen_create_def init_darwin_native_def codegen_zeroed_def Let_def
           split: option.splits)

theorem init_darwin_native_choice_witness:
  "(os \<lparr>arch = ZigLLVM_thumb, os = ZigLLVM_IOS\<rparr> = ZigLLVM_Darwin \<or>
    os \<lparr>arch = ZigLLVM_thumb, os = ZigLLVM_IOS\<rparr> = ZigLLVM_MacOSX \<or>
    os \<lparr>arch = ZigLLVM_thumb, os = ZigLLVM_IOS\<rparr> = ZigLLVM_IOS) \<and>
   (mmacosx_version_min
      (codegen_create
        (\<lambda>k. if k = ''MACOSX_DEPLOYMENT_TARGET'' then Some ''10.12''
             else if k = ''IPHONEOS_DEPLOYMENT_TARGET'' then Some ''9.3'' else None)
        \<lparr>arch = ZigLLVM_thumb, os = ZigLLVM_IOS\<rparr> None),
    mios_version_min
      (codegen_create
        (\<lambda>k. if k = ''MACOSX_DEPLOYMENT_TARGET'' then Some ''10.12''
             else if k = ''IPHONEOS_DEPLOYMENT_TARGET'' then Some ''9.3'' else None)
        \<lparr>arch = ZigLLVM_thumb, os = ZigLLVM_IOS\<rparr> None))
   = (None, Some ''9.3'')"
  using init_darwin_native_choice
    [of "\<lparr>arch = ZigLLVM_thumb, os = ZigLLVM_IOS\<rparr>"
        "\<lambda>k. if k = ''MACOSX_DEPLOYMENT_TARGET'' then Some ''10.12''
             else if k = ''IPHONEOS_DEPLOYMENT_TARGET'' then Some ''9.3'' else None"]
  by simp

subsection \<open>Bounds checks\<close>

lemma add_bounds_check_none:
  "add_bounds_check g t lp LLVMValueNull up LLVMValueNull = g"
  by (simp add: add_bounds_check_def)

lemma add_bounds_check_lower_only:
  assumes "insert_block (builder g) = Some ib" and "ib < num_blocks (builder g)"
      and "lo \<noteq> LLVMValueNull"
  shows "add_bounds_check g t lp lo up LLVMValueNull =
           g\<lparr>builder := one_bounds_check (builder g) ib (cur_fn_val g) (trap_fn_val g) t lp lo\<rparr>"
  using assms
  apply (simp add: add_bounds_check_def gen_debug_safety_crash_def builder_defs Let_def
           cong: let_weak_cong prod.case_cong_weak)
  apply (rule builder_update_cong)
  apply (rule LLVMBuilder.equality)
  apply (simp_all add: fun_eq_iff blocks_simps one_bounds_check_def)
  done

lemma add_bounds_check_upper_only:
  assumes "insert_block (builder g) = Some ib" and "ib < num_blocks (builder g)"
      and "hi \<noteq> LLVMValueNull"
  shows "add_bounds_check g t lp LLVMValueNull up hi =
           g\<lparr>builder := one_bounds_check (builder g) ib (cur_fn_val g) (trap_fn_val g) t up hi\<rparr>"
  using assms
  apply (simp add: add_bounds_check_def gen_debug_safety_crash_def builder_defs Let_def
           cong: let_weak_cong prod.case_cong_weak)
  apply (rule builder_update_cong)
  apply (rule LLVMBuilder.equality)
  apply (simp_all add: fun_eq_iff blocks_simps one_bounds_check_def)
  done

lemma add_bounds_check_both:
  assumes "insert_block (builder g) = Some ib" and "ib < num_blocks (builder g)"
      and "lo \<noteq> LLVMValueNull" and "hi \<noteq> LLVMValueNull"
  shows "add_bounds_check g t lp lo up hi =
           g\<lparr>builder := two_bounds_checks (builder g) ib (cur_fn_val g) (trap_fn_val g)
                            t lp lo up hi\<rparr>"
  using assms
  apply (simp add: add_bounds_check_def gen_debug_safety_crash_def builder_defs Let_def
           cong: let_weak_cong prod.case_cong_weak)
  apply (rule builder_update_cong)
  apply (rule LLVMBuilder.equality)
  apply (simp_all add: fun_eq_iff blocks_simps two_bounds_checks_def)
  done

text \<open>
  C4. With the builder positioned in a block \<open>ib\<close> of the function: when neither bound is
  supplied \<^verbatim>\<open>add_bounds_check\<close> changes nothing; when exactly one bound is supplied it
  emits exactly one compare and one conditional branch (\<open>one_bounds_check\<close>); when both
  are supplied the lower compare comes first, the upper compare is in the block reached
  when the lower check holds, and both branches fail into the one block that calls the
  trap and ends in unreachable (\<open>two_bounds_checks\<close>).
\<close>

theorem add_bounds_check_shape:
  assumes "insert_block (builder g) = Some ib" and "ib < num_blocks (builder g)"
  shows "add_bounds_check g t lp LLVMValueNull up LLVMValueNull = g \<and>
         (lo \<noteq> LLVMValueNull \<longrightarrow>
            add_bounds_check g t lp lo up LLVMValueNull =
              g\<lparr>builder := one_bounds_check (builder g) ib (cur_fn_val g) (trap_fn_val g) t lp lo\<rparr>) \<and>
         (hi \<noteq> LLVMValueNull \<longrightarrow>
            add_bounds_check g t lp LLVMValueNull up hi =
              g\<lparr>builder := one_bounds_check (builder g) ib (cur_fn_val g) (trap_fn_val g) t up hi\<rparr>) \<and>
         (lo \<noteq> LLVMValueNull \<and> hi \<noteq> LLVMValueNull \<longrightarrow>
            add_bounds_check g t lp lo up hi =
              g\<lparr>builder := two_bounds_checks (builder g) ib (cur_fn_val g) (trap_fn_val g)
                               t lp lo up hi\<rparr>)"
  using add_bounds_check_none add_bounds_check_lower_only[OF assms]
    add_bounds_check_upper_only[OF assms] add_bounds_check_both[OF assms]
  by blast

theorem add_bounds_check_shape_witness:
  "insert_block (builder example_codegen) = Some 0 \<and>
   0 < num_blocks (builder example_codegen) \<and>
   add_bounds_check example_codegen (LLVMValueHandle 7)
       LLVMIntNE (LLVMConstNull (LLVMIntType 16))
       LLVMIntULT (LLVMConstInt (LLVMIntType 16) 3 False) =
     example_codegen
       \<lparr>builder := two_bounds_checks (builder example_codegen) 0
          (LLVMFunction ''f'') (LLVMFunction ''llvm.debugtrap'') (LLVMValueHandle 7)
          LLVMIntNE (LLVMConstNull (LLVMIntType 16))
          LLVMIntULT (LLVMConstInt (LLVMIntType 16) 3 False)\<rparr> \<and>
   add_bounds_check example_codegen (LLVMValueHandle 7)
       LLVMIntNE LLVMValueNull LLVMIntULT (LLVMConstInt (LLVMIntType 16) 3 False) =
     example_codegen
       \<lparr>builder := one_bounds_check (builder example_codegen) 0
          (LLVMFunction ''f'') (LLVMFunction ''llvm.debugtrap'') (LLVMValueHandle 7)
          LLVMIntULT (LLVMConstInt (LLVMIntType 16) 3 False)\<rparr>"
  using add_bounds_check_shape
    [of example_codegen 0 "LLVMValueHandle 7" LLVMIntNE LLVMIntULT
        "LLVMConstNull (LLVMIntType 16)" "LLVMConstInt (LLVMIntType 16) 3 False"]
  by (simp add: example_codegen_simps)

subsection \<open>Overflow-checked addition\<close>


lemma update_global_frame [simp]:
  "builder (update_global g v f) = builder g"
  "cur_fn_val (update_global g v f) = cur_fn_val g"
  "trap_fn_val (update_global g v f) = trap_fn_val g"
  "int_overflow_fns (update_global g v f) = int_overflow_fns g"
  "instr_llvm_value (update_global g v f) = instr_llvm_value g"
  "const_llvm_value (update_global g v f) = const_llvm_value g"
  "const_llvm_global (update_global g v f) = const_llvm_global g"
  "error_decls (update_global g v f) = error_decls g"
  "generate_error_name_table (update_global g v f) = generate_error_name_table g"
  "err_name_table (update_global g v f) = err_name_table g"
  "entry_usize (update_global g v f) = entry_usize g"
  "is_release_build (update_global g v f) = is_release_build g"
  "is_test_build (update_global g v f) = is_test_build g"
  "memset_fn_val (update_global g v f) = memset_fn_val g"
  "memcpy_fn_val (update_global g v f) = memcpy_fn_val g"
  by (simp_all add: update_global_def split: LLVMValueRef.splits)

lemmas module_setter_defs = LLVMSetInitializer_def LLVMSetLinkage_def LLVMSetGlobalConstant_def
  LLVMSetUnnamedAddr_def

lemma const_frame_update [simp]:
  "const_frame (g\<lparr>llvm_module := m\<rparr>) = const_frame g"
  "const_frame (g\<lparr>const_llvm_value := cv\<rparr>) = const_frame g"
  "const_frame (g\<lparr>const_llvm_global := cg\<rparr>) = const_frame g"
  "const_frame (g\<lparr>fn_table_llvm_value := fv\<rparr>) = const_frame g"
  by (simp_all add: const_frame_def)

lemma const_frame_update_global [simp]:
  "const_frame (update_global g v f) = const_frame g"
  by (simp add: update_global_def split: LLVMValueRef.splits)

lemma const_frame_update_function [simp]:
  "const_frame (update_function g v f) = const_frame g"
  by (simp add: update_function_def split: LLVMValueRef.splits)

lemmas function_setter_defs = LLVMAddFunctionAttr_def ZigLLVMAddFunctionAttr_def
  LLVMSetFunctionLinkage_def LLVMSetFunctionCallConv_def

lemma const_frame_fn_llvm_value [simp]:
  "const_frame (snd (fn_llvm_value g fn)) = const_frame g"
  by (simp add: fn_llvm_value_def function_setter_defs LLVMAddFunction_def Let_def
        split: FnInline.splits)

lemma const_frame_render_const_val_global [simp]:
  "const_frame (render_const_val_global g ty cv) = const_frame g"
  by (simp add: render_const_val_global_def module_setter_defs LLVMAddGlobal_def Let_def)

lemma const_frame_set_initializer [simp]:
  "const_frame (LLVMSetInitializer g v i) = const_frame g"
  by (simp add: LLVMSetInitializer_def)

lemma const_frame_fn_llvm_value_eq:
  "fn_llvm_value g fn = (v, g') \<Longrightarrow> const_frame g' = const_frame g"
  using const_frame_fn_llvm_value[of g fn] by simp

text \<open>Emitting a constant changes the module and the cached handles only.\<close>

lemma gen_const_val_frame_all:
  shows "case gen_const_val g ty cv of Inl e \<Rightarrow> True
         | Inr (v, g') \<Rightarrow> const_frame g' = const_frame g"
    and "case gen_const_static gs tys td cvs of Inl e \<Rightarrow> True
         | Inr (v, g') \<Rightarrow> const_frame g' = const_frame gs"
    and "case render_const_val ga tya cva of Inl e \<Rightarrow> True
         | Inr g' \<Rightarrow> const_frame g' = const_frame ga"
    and "case gen_const_struct_fields gb tfs cfs out of Inl e \<Rightarrow> True
         | Inr (vs, g') \<Rightarrow> const_frame g' = const_frame gb"
    and "case gen_const_array_elements gc tyc es n of Inl e \<Rightarrow> True
         | Inr (vs, g') \<Rightarrow> const_frame g' = const_frame gc"
proof (induction g ty cv and gs tys td cvs and ga tya cva and gb tfs cfs out and gc tyc es n
      rule: gen_const_val_gen_const_static_render_const_val_gen_const_struct_fields_gen_const_array_elements.induct)
  case (1 g ty_ref zb hp ss ma td const_val)
  then show ?case by (simp split: ConstValSpecial.splits)
next
  case (2 g ty canonical_type const_val)
  then show ?case by simp
next
  case (3 g ty is_signed bits const_val)
  then show ?case by (simp split: ConstData.splits)
next
  case (4 g ty const_val)
  then show ?case by (simp split: ConstData.splits option.splits)
next
  case (5 g ty bits const_val)
  then show ?case by (simp add: Let_def split: ConstData.splits)
next
  case (6 g ty const_val)
  then show ?case by (simp split: ConstData.splits)
next
  case (7 g ty child_type cid sp cd)
  then show ?case by (fastforce split: ConstData.splits option.splits sum.splits prod.splits)
next
  case (8 g ty struct_fields gen_field_count is_slice cid sp cd)
  then show ?case
    by (fastforce simp: allocate_def split: ConstData.splits sum.splits prod.splits)
next
  case (9 g ty const_val)
  then show ?case by simp
next
  case (10 g ty child_type len cid sp cd)
  then show ?case
    by (fastforce simp: allocate_def split: ConstData.splits sum.splits prod.splits)
next
  case (11 g ty tag_type gen_field_count union_type enum_fields cid sp cd)
  then show ?case
    by (fastforce simp: Let_def split: ConstData.splits option.splits sum.splits prod.splits)
next
  case (12 g ty fn_type_id raw_type_ref gen_param_info cc const_val)
  then show ?case
    by (auto split: ConstData.splits option.splits dest: const_frame_fn_llvm_value_eq)
next
  case (13 g ty child_type is_const cid sp cd)
  then show ?case
    by (fastforce simp: Let_def split: ConstData.splits option.splits sum.splits prod.splits)
next
  case (14 g ty child_type cid sp cd)
  then show ?case
    by (fastforce split: ConstData.splits option.splits sum.splits prod.splits)
next
  case (27 g ty const_val)
  then show ?case
    by (subst render_const_val.simps) (fastforce split: sum.splits prod.splits)
next
  case (29 g type_struct_field rest x_fields out)
  then show ?case
    by (fastforce split: option.splits list.splits sum.splits prod.splits)
next
  case (31 g child_type elements n)
  then show ?case
    by (fastforce split: list.splits sum.splits prod.splits)
qed simp_all

lemma const_frameD:
  assumes "const_frame g' = const_frame g"
  shows "builder g' = builder g" "instr_llvm_value g' = instr_llvm_value g"
        "cur_fn_val g' = cur_fn_val g" "trap_fn_val g' = trap_fn_val g"
        "error_decls g' = error_decls g"
        "generate_error_name_table g' = generate_error_name_table g"
        "err_name_table g' = err_name_table g" "entry_usize g' = entry_usize g"
        "is_release_build g' = is_release_build g" "is_test_build g' = is_test_build g"
        "memset_fn_val g' = memset_fn_val g" "memcpy_fn_val g' = memcpy_fn_val g"
        "var_value_ref g' = var_value_ref g" "int_overflow_fns g' = int_overflow_fns g"
  using arg_cong[OF assms, of builder] arg_cong[OF assms, of instr_llvm_value]
        arg_cong[OF assms, of cur_fn_val] arg_cong[OF assms, of trap_fn_val]
        arg_cong[OF assms, of error_decls] arg_cong[OF assms, of generate_error_name_table]
        arg_cong[OF assms, of err_name_table] arg_cong[OF assms, of entry_usize]
        arg_cong[OF assms, of is_release_build] arg_cong[OF assms, of is_test_build]
        arg_cong[OF assms, of memset_fn_val] arg_cong[OF assms, of memcpy_fn_val]
        arg_cong[OF assms, of var_value_ref] arg_cong[OF assms, of int_overflow_fns]
  by (simp_all add: const_frame_def)

lemma render_const_val_const_frame:
  "render_const_val g ty cv = Inr g' \<Longrightarrow> const_frame g' = const_frame g"
  using gen_const_val_frame_all(3)[of g ty cv] by simp







lemma example_codegen_operands_simps:
  "builder example_codegen_operands = builder example_codegen"
  "cur_fn_val example_codegen_operands = LLVMFunction ''f''"
  "trap_fn_val example_codegen_operands = LLVMFunction ''llvm.debugtrap''"
  "is_release_build example_codegen_operands = False"
  "int_overflow_fns example_codegen_operands = (\<lambda>i j k. LLVMValueNull)"
  "instr_llvm_value example_codegen_operands 11 = LLVMValueHandle 101"
  "instr_llvm_value example_codegen_operands 12 = LLVMValueHandle 102"
  "error_decls example_codegen_operands = [None]"
  by (simp_all add: example_codegen_operands_def example_codegen_simps)


subsection \<open>Frames\<close>

lemma same_context_refl [simp]: "same_context g g"
  by (simp add: same_context_def)

lemma same_context_trans: "same_context g g' \<Longrightarrow> same_context g' g'' \<Longrightarrow> same_context g g''"
  by (simp add: same_context_def)

lemma same_context_update [simp]:
  "same_context g (g'\<lparr>builder := b\<rparr>) = same_context g g'"
  "same_context g (g'\<lparr>llvm_module := m\<rparr>) = same_context g g'"
  "same_context g (g'\<lparr>instr_llvm_value := iv\<rparr>) = same_context g g'"
  "same_context g (g'\<lparr>const_llvm_value := cv\<rparr>) = same_context g g'"
  "same_context g (g'\<lparr>const_llvm_global := cg\<rparr>) = same_context g g'"
  by (simp_all add: same_context_def)

lemma same_context_update_global [simp]:
  "same_context g (update_global g' v f) = same_context g g'"
  by (simp add: update_global_def split: LLVMValueRef.splits)

lemma same_context_builder_insert [simp]:
  "same_context g (snd (builder_insert g' op)) = same_context g g'"
  by (simp add: builder_insert_def)

lemma render_const_val_context:
  "render_const_val g ty cv = Inr g' \<Longrightarrow> same_context g g' \<and> builder g' = builder g"
  using const_frameD[OF render_const_val_const_frame, of g ty cv g']
  by (simp add: same_context_def)

lemma render_const_val_global_context [simp]:
  "same_context g (render_const_val_global g' ty cv) = same_context g g'"
  "builder (render_const_val_global g' ty cv) = builder g'"
  by (simp_all add: render_const_val_global_def module_setter_defs LLVMAddGlobal_def Let_def)

text \<open>Reading an operand changes the builder by at most one load at the insertion point.\<close>

lemma ir_llvm_value_context:
  assumes "ir_llvm_value g i = Inr (v, g')"
  shows "same_context g g' \<and>
         (builder g' = builder g \<or>
          (\<exists>p. builder g' = insert_instr (builder g) (InstLoad p)))"
  using assms
  by (auto simp: ir_llvm_value_def and_then_def Let_def
                 LLVMBuildLoad_def builder_insert_def
           dest!: render_const_val_context
           split: if_splits sum.splits)

lemma ir_llvm_value_position:
  assumes "ir_llvm_value g i = Inr (v, g')"
  shows "insert_block (builder g') = insert_block (builder g)"
        "num_blocks (builder g') = num_blocks (builder g)"
  using ir_llvm_value_context[OF assms] by auto

lemma same_context_fields:
  assumes "same_context g g'"
  shows "cur_fn_val g' = cur_fn_val g" "trap_fn_val g' = trap_fn_val g"
        "error_decls g' = error_decls g" "generate_error_name_table g' = generate_error_name_table g"
        "err_name_table g' = err_name_table g" "entry_usize g' = entry_usize g"
        "is_release_build g' = is_release_build g" "is_test_build g' = is_test_build g"
        "memset_fn_val g' = memset_fn_val g" "memcpy_fn_val g' = memcpy_fn_val g"
        "var_value_ref g' = var_value_ref g" "int_overflow_fns g' = int_overflow_fns g"
  using assms by (simp_all add: same_context_def)


subsection \<open>Error names\<close>



subsection \<open>Variable declarations\<close>

lemma builder_insert_context [simp]:
  "same_context g (snd (builder_insert g' op)) = same_context g g'"
  "insert_block (builder (snd (builder_insert g' op))) = insert_block (builder g')"
  "num_blocks (builder (snd (builder_insert g' op))) = num_blocks (builder g')"
  by (simp_all add: builder_insert_def)

lemma gen_struct_memcpy_context:
  assumes "gen_struct_memcpy g src dest ty = Inr (r, g')"
  shows "same_context g g' \<and> insert_block (builder g') = insert_block (builder g)"
  using assms
  by (auto simp: gen_struct_memcpy_def LLVMBuildBitCast_def LLVMBuildCall_def builder_insert_def
                 Let_def same_context_def
           split: if_splits)

lemma gen_assign_raw_context:
  assumes "gen_assign_raw g target val t1 t2 = Inr (r, g')"
  shows "same_context g g' \<and> insert_block (builder g') = insert_block (builder g)"
  using assms
  by (auto simp: gen_assign_raw_def LLVMBuildStore_def builder_insert_def Let_def
           dest: gen_struct_memcpy_context
           split: if_splits)

lemma gen_var_debug_decl_last:
  assumes "gen_var_debug_decl g v = Inr g'" and "insert_block (builder g) = Some ib"
  shows "bb_instrs (blocks (builder g') ib) =
           bb_instrs (blocks (builder g) ib) @
             [(next_instr (builder g),
               InstDbgDeclare (var_value_ref g (var_id v)) (di_loc_var v)
                 (line (decl_node v) + 1) (column (decl_node v) + 1))]"
  using assms
  by (auto simp: gen_var_debug_decl_def ZigLLVMInsertDeclareAtEnd_def LLVMGetInsertBlock_def
                 and_then_def
           split: option.splits sum.splits)

lemma decl_var_initialize_context:
  assumes "decl_var_initialize g i = Inr g'"
  shows "same_context g g' \<and> insert_block (builder g') = insert_block (builder g)"
proof (cases "special (static_value (init_value i)) = ConstValSpecialRuntime \<or>
              special (static_value (init_value i)) = ConstValSpecialStatic")
  case True
  with assms obtain val g1 r where
    a: "ir_llvm_value g (init_value i) = Inr (val, g1)"
    and b: "gen_assign_raw g1 (var_value_ref g1 (var_id (var i))) val (var_type (var i))
              (type_entry (init_value i)) = Inr (r, g')"
    by (auto simp: decl_var_initialize_def Let_def and_then_def split: sum.splits)
  from ir_llvm_value_context[OF a] ir_llvm_value_position[OF a] gen_assign_raw_context[OF b]
  show ?thesis
    by (auto intro: same_context_trans)
next
  case False
  with assms show ?thesis
    by (auto simp: decl_var_initialize_def Let_def LLVMBuildBitCast_def LLVMBuildCall_def
                   builder_insert_def same_context_def
             split: if_splits)
qed

text \<open>
  C2 (as amended). Lowering a DeclVar whose variable has a type with bits: when the
  reference count of the variable is not zero and the lowering returns (no assertion of
  the assignment or of the debug-scope resolution fails), it returns no value and leaves
  a debug-declare of the variable as the last instruction of the current block, whether
  the initial value was assigned, the slot was filled, or nothing was written; when the
  reference count is zero, the lowering returns no value at once and changes nothing, so
  that nothing is emitted.
\<close>

theorem ir_render_decl_var_declares:
  assumes "type_has_bits (var_type (var i))" and "insert_block (builder g) = Some ib"
  shows "(var_ref_count (var i) \<noteq> 0 \<longrightarrow>
            (\<forall>r g'. ir_render_decl_var g i = Inr (r, g') \<longrightarrow>
               r = LLVMValueNull \<and>
               (\<exists>n. bb_instrs (blocks (builder g') ib) \<noteq> [] \<and>
                    last (bb_instrs (blocks (builder g') ib)) =
                      (n, InstDbgDeclare (var_value_ref g (var_id (var i))) (di_loc_var (var i))
                            (line (decl_node (var i)) + 1) (column (decl_node (var i)) + 1))))) \<and>
         (var_ref_count (var i) = 0 \<longrightarrow> ir_render_decl_var g i = Inr (LLVMValueNull, g))"
proof (intro conjI impI allI)
  fix r g'
  assume used: "var_ref_count (var i) \<noteq> 0" and run: "ir_render_decl_var g i = Inr (r, g')"
  from assms(1) used run obtain g2 where
    init: "decl_var_initialize g i = Inr g2"
    and g2: "gen_var_debug_decl g2 (var i) = Inr g'" and r: "r = LLVMValueNull"
    by (auto simp: ir_render_decl_var_def and_then_def split: sum.splits)
  from decl_var_initialize_context[OF init]
  have fr: "same_context g g2" "insert_block (builder g2) = Some ib"
    using assms(2) by simp_all
  show "r = LLVMValueNull" by (rule r)
  show "\<exists>n. bb_instrs (blocks (builder g') ib) \<noteq> [] \<and>
            last (bb_instrs (blocks (builder g') ib)) =
              (n, InstDbgDeclare (var_value_ref g (var_id (var i))) (di_loc_var (var i))
                    (line (decl_node (var i)) + 1) (column (decl_node (var i)) + 1))"
    using gen_var_debug_decl_last[OF g2 fr(2)]
    by (simp add: same_context_fields[OF fr(1)])
next
  assume "var_ref_count (var i) = 0"
  with assms(1) show "ir_render_decl_var g i = Inr (LLVMValueNull, g)"
    by (simp add: ir_render_decl_var_def)
qed

theorem ir_render_decl_var_declares_witness:
  "type_has_bits (var_type (var (example_decl_var 1))) \<and>
   var_ref_count (var (example_decl_var 1)) \<noteq> 0 \<and>
   type_has_bits (var_type (var (example_decl_var 0))) \<and>
   var_ref_count (var (example_decl_var 0)) = 0 \<and>
   insert_block (builder example_codegen) = Some 0 \<and>
   (\<exists>g'. ir_render_decl_var example_codegen (example_decl_var 1) = Inr (LLVMValueNull, g') \<and>
      bb_instrs (blocks (builder g') 0) \<noteq> [] \<and>
      last (bb_instrs (blocks (builder g') 0)) =
        (2, InstDbgDeclare LLVMValueNull (LLVMValueHandle 210) 5 9)) \<and>
   ir_render_decl_var example_codegen (example_decl_var 0) = Inr (LLVMValueNull, example_codegen)"
proof -
  have h: "type_has_bits (var_type (var (example_decl_var 1)))"
          "insert_block (builder example_codegen) = Some 0"
    and u: "var_ref_count (var (example_decl_var 1)) \<noteq> 0"
    and h0: "type_has_bits (var_type (var (example_decl_var 0)))"
    and u0: "var_ref_count (var (example_decl_var 0)) = 0"
    by (simp_all add: example_decl_var_def example_var_def example_i32_def type_has_bits_def
          example_codegen_simps)
  have "\<exists>g'. ir_render_decl_var example_codegen (example_decl_var 1) = Inr (LLVMValueNull, g')"
    by (simp add: ir_render_decl_var_def decl_var_initialize_def gen_var_debug_decl_def
          example_decl_var_def example_var_def example_undef_def example_i32_def
          example_runtime_def type_has_bits_def ir_want_debug_safety_def
          example_codegen_simps LLVMBuildBitCast_def LLVMBuildCall_def builder_insert_def
          Let_def)
  then obtain g' where
    run: "ir_render_decl_var example_codegen (example_decl_var 1) = Inr (LLVMValueNull, g')"
    by blast
  have nx: "\<And>n. (bb_instrs (blocks (builder g') 0) \<noteq> [] \<and>
        last (bb_instrs (blocks (builder g') 0)) =
          (n, InstDbgDeclare (var_value_ref example_codegen (var_id (var (example_decl_var 1))))
                 (di_loc_var (var (example_decl_var 1)))
                 (line (decl_node (var (example_decl_var 1))) + 1)
                 (column (decl_node (var (example_decl_var 1))) + 1))) \<Longrightarrow> n = 2"
    using run
    by (auto simp: ir_render_decl_var_def decl_var_initialize_def gen_var_debug_decl_def
          example_decl_var_def example_var_def example_undef_def example_i32_def
          example_runtime_def type_has_bits_def ir_want_debug_safety_def
          example_codegen_simps LLVMBuildBitCast_def LLVMBuildCall_def builder_insert_def
          ZigLLVMInsertDeclareAtEnd_def LLVMGetInsertBlock_def insert_instr_def
          Let_def)
  have vr: "var_value_ref example_codegen 21 = LLVMValueNull"
    by (simp add: example_codegen_simps)
  from ir_render_decl_var_declares[OF h] u run
  obtain n where last1: "bb_instrs (blocks (builder g') 0) \<noteq> []"
      "last (bb_instrs (blocks (builder g') 0)) =
          (n, InstDbgDeclare (var_value_ref example_codegen (var_id (var (example_decl_var 1))))
                 (di_loc_var (var (example_decl_var 1)))
                 (line (decl_node (var (example_decl_var 1))) + 1)
                 (column (decl_node (var (example_decl_var 1))) + 1))"
    by blast
  with nx have n: "n = 2" by blast
  have unused: "ir_render_decl_var example_codegen (example_decl_var 0) =
                  Inr (LLVMValueNull, example_codegen)"
    using ir_render_decl_var_declares[OF h0 h(2)] u0 by blast
  show ?thesis
    using h u h0 u0 run last1 n vr unused
    by (auto simp: example_decl_var_def example_var_def)
qed

text \<open>
  C2 as stated fails: the variable has a type with bits but is never referenced, and the
  lowering returns at once, leaving the context (and so every block) as it was.
\<close>

theorem ir_render_decl_var_unused_counterexample:
  "type_has_bits (var_type (var (example_decl_var 0))) \<and>
   ir_render_decl_var example_codegen (example_decl_var 0) = Inr (LLVMValueNull, example_codegen)"
  by (simp add: ir_render_decl_var_def example_decl_var_def example_var_def example_i32_def
        type_has_bits_def)


lemma example_codegen_errors_simps:
  "generate_error_name_table example_codegen_errors"
  "error_decls example_codegen_errors = example_error_decls"
  "builder example_codegen_errors = builder example_codegen"
  "is_release_build example_codegen_errors = False"
  "instr_llvm_value example_codegen_errors 11 = LLVMValueHandle 101"
  "cur_fn_val example_codegen_errors = LLVMFunction ''f''"
  "trap_fn_val example_codegen_errors = LLVMFunction ''llvm.debugtrap''"
  "err_name_table example_codegen_errors = LLVMValueNull"
  "entry_usize example_codegen_errors = example_usize"
  by (simp_all add: example_codegen_errors_def example_codegen_operands_simps
        example_codegen_operands_def example_codegen_simps)


subsection \<open>Inline assembly\<close>





subsection \<open>The error-name table\<close>

lemma module_update_cong:
  "a = b \<Longrightarrow> g\<lparr>llvm_module := a\<rparr> = g\<lparr>llvm_module := b\<rparr>"
  by simp

lemma name_slice_module [simp]:
  "name_slice (g\<lparr>llvm_module := m\<rparr>) k name = name_slice g k name"
  by (simp add: name_slice_def)

lemma error_name_values_eq:
  assumes "\<forall>d \<in> set ds. is_error_decl d"
  shows "error_name_values g ds vals =
           Inr (vals @ map (\<lambda>(k, d). name_slice g k (decl_name d))
                         (zip [length (module_globals (llvm_module g)) ..<
                               length (module_globals (llvm_module g)) + length ds] ds),
                g\<lparr>llvm_module := (llvm_module g)
                    \<lparr>module_globals := module_globals (llvm_module g) @
                                         map (\<lambda>d. name_global (decl_name d)) ds\<rparr>\<rparr>)"
  using assms
proof (induction ds arbitrary: g vals)
  case Nil
  then show ?case by simp
next
  case (Cons d ds)
  from Cons.prems obtain node name where d: "d = Some node" "data node = NodeErrorValueDecl name"
    by (auto simp: is_error_decl_def node_type_def split: option.splits AstNodeData.splits)
  have rest: "\<forall>d \<in> set ds. is_error_decl d" using Cons.prems by simp
  let ?g1 = "g\<lparr>llvm_module := (llvm_module g)
                \<lparr>module_globals := module_globals (llvm_module g) @ [name_global name]\<rparr>\<rparr>"
  have step: "error_name_values g (d # ds) vals =
        error_name_values ?g1 ds
          (vals @ [name_slice g (length (module_globals (llvm_module g))) name])"
    by (simp add: d LLVMAddGlobal_def module_setter_defs update_global_def Let_def
          name_global_def name_slice_def
          cong: let_weak_cong prod.case_cong_weak)
  show ?case
    unfolding step Cons.IH[OF rest]
    by (simp add: d upt_conv_Cons del: upt_Suc)
qed

lemma generate_error_name_table_fn_eq:
  assumes "generate_error_name_table g" and "2 \<le> length (error_decls g)"
      and "\<forall>d \<in> set (tl (error_decls g)). is_error_decl d"
  shows "generate_error_name_table_fn g =
     Inr (g\<lparr>llvm_module := (llvm_module g)
             \<lparr>module_globals :=
                module_globals (llvm_module g) @
                map (\<lambda>d. name_global (decl_name d)) (tl (error_decls g)) @
                [\<lparr>gv_name = ''err_name_table'',
                  gv_type = LLVMTypeOf (LLVMConstArray (type_ref (slice_u8_type g))
                     (LLVMGetUndef (type_ref (slice_u8_type g)) #
                      map (\<lambda>(k, d). name_slice g k (decl_name d))
                        (zip [length (module_globals (llvm_module g)) ..<
                              length (module_globals (llvm_module g)) + length (tl (error_decls g))]
                             (tl (error_decls g))))),
                  gv_initializer = Some (LLVMConstArray (type_ref (slice_u8_type g))
                     (LLVMGetUndef (type_ref (slice_u8_type g)) #
                      map (\<lambda>(k, d). name_slice g k (decl_name d))
                        (zip [length (module_globals (llvm_module g)) ..<
                              length (module_globals (llvm_module g)) + length (tl (error_decls g))]
                             (tl (error_decls g))))),
                  gv_linkage = LLVMPrivateLinkage, gv_constant = True,
                  gv_unnamed_addr = True\<rparr>]\<rparr>,
           err_name_table := LLVMGlobal (length (module_globals (llvm_module g)) +
                                          length (tl (error_decls g)))\<rparr>)"
proof -
  have ne: "error_decls g \<noteq> []" "length (error_decls g) \<noteq> 1"
    using assms(2) by auto
  show ?thesis
    using assms(1) ne
    by (simp add: generate_error_name_table_fn_def error_name_values_eq[OF assms(3)]
          LLVMAddGlobal_def module_setter_defs update_global_def Let_def nth_append
          cong: let_weak_cong prod.case_cong_weak)
qed

text \<open>
  C6. When the table is wanted and the declaration list has, after the implicit ok entry,
  at least one entry, all of them error value declarations: the table is generated; it
  is a new private, constant, unnamed-address global \<open>err_name_table\<close> whose initializer
  is an array of exactly one element per entry of the list; element 0 is undef; element
  \<open>i \<ge> 1\<close> is the slice struct whose pointer field points to a private, constant,
  unnamed-address global holding the name of the \<open>i\<close>-th declaration (\<open>name_global\<close>) and
  whose length field is the length of that name (\<open>name_slice\<close>).
\<close>

theorem error_name_table_shape:
  assumes "generate_error_name_table g" and "2 \<le> length (error_decls g)"
      and "\<forall>d \<in> set (tl (error_decls g)). is_error_decl d"
  shows "\<exists>g' vals.
      generate_error_name_table_fn g = Inr g' \<and>
      err_name_table g' =
        LLVMGlobal (length (module_globals (llvm_module g)) + length (error_decls g) - 1) \<and>
      module_globals (llvm_module g') !
          (length (module_globals (llvm_module g)) + length (error_decls g) - 1) =
        \<lparr> gv_name = ''err_name_table'',
          gv_type = LLVMTypeOf (LLVMConstArray (type_ref (slice_u8_type g)) vals),
          gv_initializer = Some (LLVMConstArray (type_ref (slice_u8_type g)) vals),
          gv_linkage = LLVMPrivateLinkage, gv_constant = True, gv_unnamed_addr = True \<rparr> \<and>
      length vals = length (error_decls g) \<and>
      vals ! 0 = LLVMGetUndef (type_ref (slice_u8_type g)) \<and>
      (\<forall>i. 1 \<le> i \<and> i < length (error_decls g) \<longrightarrow>
         vals ! i = name_slice g (length (module_globals (llvm_module g)) + i - 1)
                      (decl_name (error_decls g ! i)) \<and>
         module_globals (llvm_module g') ! (length (module_globals (llvm_module g)) + i - 1) =
           name_global (decl_name (error_decls g ! i)))"
proof -
  let ?m = "length (module_globals (llvm_module g))"
  let ?ds = "tl (error_decls g)"
  let ?vals = "LLVMGetUndef (type_ref (slice_u8_type g)) #
                 map (\<lambda>(k, d). name_slice g k (decl_name d)) (zip [?m ..< ?m + length ?ds] ?ds)"
  have len: "length ?ds = length (error_decls g) - 1" by simp
  have nth_ds: "\<And>i. 1 \<le> i \<Longrightarrow> i < length (error_decls g) \<Longrightarrow> ?ds ! (i - 1) = error_decls g ! i"
    by (simp add: nth_tl)
  have vals_i: "\<And>i. 1 \<le> i \<Longrightarrow> i < length (error_decls g) \<Longrightarrow>
                  ?vals ! i = name_slice g (?m + i - 1) (decl_name (error_decls g ! i))"
  proof -
    fix i assume i: "1 \<le> i" "i < length (error_decls g)"
    then have "i - 1 < length ?ds" by simp
    then have "?vals ! i = name_slice g (?m + (i - 1)) (decl_name (?ds ! (i - 1)))"
      using i by (simp add: nth_Cons')
    then show "?vals ! i = name_slice g (?m + i - 1) (decl_name (error_decls g ! i))"
      using nth_ds[OF i] i by simp
  qed
  show ?thesis
    apply (rule exI[where x = "g\<lparr>llvm_module := (llvm_module g)
             \<lparr>module_globals :=
                module_globals (llvm_module g) @
                map (\<lambda>d. name_global (decl_name d)) ?ds @
                [\<lparr>gv_name = ''err_name_table'',
                  gv_type = LLVMTypeOf (LLVMConstArray (type_ref (slice_u8_type g)) ?vals),
                  gv_initializer = Some (LLVMConstArray (type_ref (slice_u8_type g)) ?vals),
                  gv_linkage = LLVMPrivateLinkage, gv_constant = True,
                  gv_unnamed_addr = True\<rparr>]\<rparr>,
           err_name_table := LLVMGlobal (?m + length ?ds)\<rparr>"])
    apply (rule exI[where x = ?vals])
    apply (intro conjI allI impI)
    subgoal using generate_error_name_table_fn_eq[OF assms] by simp
    subgoal using assms(2) by simp
    subgoal using assms(2) by (simp add: nth_append)
    subgoal using assms(2) by simp
    subgoal by simp
    subgoal for i using vals_i[of i] by simp
    subgoal for i
    proof -
      assume i: "1 \<le> i \<and> i < length (error_decls g)"
      then obtain j where j: "i = Suc j" by (cases i) auto
      have lt: "j < length ?ds" using i j by simp
      have "?ds ! j = error_decls g ! i" using nth_ds[of i] i j by simp
      then show ?thesis
        using lt by (simp add: j nth_append_length_plus nth_append del: length_tl)
    qed
    done
qed

theorem error_name_table_shape_witness:
  "generate_error_name_table example_codegen_errors \<and>
   2 \<le> length (error_decls example_codegen_errors) \<and>
   list_all is_error_decl (tl (error_decls example_codegen_errors)) \<and>
   (\<exists>g' vals.
      generate_error_name_table_fn example_codegen_errors = Inr g' \<and>
      err_name_table g' = LLVMGlobal 2 \<and>
      gv_initializer (module_globals (llvm_module g') ! 2) =
        Some (LLVMConstArray (LLVMTypeHandle 0) vals) \<and>
      length vals = 3 \<and>
      vals ! 0 = LLVMGetUndef (LLVMTypeHandle 0) \<and>
      vals ! 1 = LLVMConstNamedStruct (LLVMTypeHandle 0)
                   [LLVMConstBitCast (LLVMGlobal 0) (LLVMTypeHandle 0),
                    LLVMConstInt (LLVMIntType 64) 11 False] \<and>
      gv_initializer (module_globals (llvm_module g') ! 0) =
        Some (LLVMConstString ''OutOfMemory'' 11 True) \<and>
      vals ! 2 = LLVMConstNamedStruct (LLVMTypeHandle 0)
                   [LLVMConstBitCast (LLVMGlobal 1) (LLVMTypeHandle 0),
                    LLVMConstInt (LLVMIntType 64) 8 False] \<and>
      gv_initializer (module_globals (llvm_module g') ! 1) =
        Some (LLVMConstString ''Overflow'' 8 True))"
proof -
  have types: "slice_u8_type example_codegen_errors = zeroed_type"
              "u8_ptr_type example_codegen_errors = zeroed_type"
              "entry_usize example_codegen_errors = example_usize"
              "module_globals (llvm_module example_codegen_errors) = []"
    by (simp_all add: example_codegen_errors_def example_codegen_operands_def
          example_codegen_def codegen_create_def codegen_zeroed_def define_builtin_fns_def
          LLVMAddFunction_def builder_defs append_block_def Let_def example_target_def)
  have h: "generate_error_name_table example_codegen_errors"
          "2 \<le> length (error_decls example_codegen_errors)"
          "\<forall>d \<in> set (tl (error_decls example_codegen_errors)). is_error_decl d"
    by (simp_all add: example_codegen_errors_simps example_error_decls_def is_error_decl_def
          node_type_def)
  from error_name_table_shape[OF h] obtain g' vals where
    run: "generate_error_name_table_fn example_codegen_errors = Inr g'"
    and tab: "err_name_table g' =
        LLVMGlobal (length (module_globals (llvm_module example_codegen_errors)) +
                    length (error_decls example_codegen_errors) - 1)"
    and glob: "module_globals (llvm_module g') !
          (length (module_globals (llvm_module example_codegen_errors)) +
           length (error_decls example_codegen_errors) - 1) =
        \<lparr> gv_name = ''err_name_table'',
          gv_type = LLVMTypeOf (LLVMConstArray (type_ref (slice_u8_type example_codegen_errors)) vals),
          gv_initializer =
            Some (LLVMConstArray (type_ref (slice_u8_type example_codegen_errors)) vals),
          gv_linkage = LLVMPrivateLinkage, gv_constant = True, gv_unnamed_addr = True \<rparr>"
    and len: "length vals = length (error_decls example_codegen_errors)"
    and v0: "vals ! 0 = LLVMGetUndef (type_ref (slice_u8_type example_codegen_errors))"
    and vi: "\<forall>i. 1 \<le> i \<and> i < length (error_decls example_codegen_errors) \<longrightarrow>
         vals ! i = name_slice example_codegen_errors
                      (length (module_globals (llvm_module example_codegen_errors)) + i - 1)
                      (decl_name (error_decls example_codegen_errors ! i)) \<and>
         module_globals (llvm_module g') !
             (length (module_globals (llvm_module example_codegen_errors)) + i - 1) =
           name_global (decl_name (error_decls example_codegen_errors ! i))"
    by blast
  have n: "length (error_decls example_codegen_errors) = 3"
    by (simp add: example_codegen_errors_simps example_error_decls_def)
  have v1: "vals ! 1 = name_slice example_codegen_errors 0 ''OutOfMemory''"
           "module_globals (llvm_module g') ! 0 = name_global ''OutOfMemory''"
    using vi[rule_format, of 1]
    by (simp_all add: n types example_codegen_errors_simps example_error_decls_def)
  have v2: "vals ! 2 = name_slice example_codegen_errors 1 ''Overflow''"
           "module_globals (llvm_module g') ! 1 = name_global ''Overflow''"
    using vi[rule_format, of 2]
    by (simp_all add: n types example_codegen_errors_simps example_error_decls_def)
  have "list_all is_error_decl (tl (error_decls example_codegen_errors))"
    using h(3) by (simp add: list_all_iff)
  then show ?thesis
    using h(1,2) run tab glob len v0 v1 v2
    by (auto simp: n types name_slice_def name_global_def zeroed_type_def example_usize_def)
qed

subsection \<open>Lowering a function body\<close>





text \<open>Lowering keeps the builder positioned in a block.\<close>

lemma insert_block_simps [simp]:
  "insert_block (builder (snd (builder_insert g op))) = insert_block (builder g)"
  "insert_block (builder (snd (LLVMAppendBasicBlock g fn name))) = insert_block (builder g)"
  "fst (LLVMAppendBasicBlock g fn name) \<noteq> None"
  "insert_block (builder (LLVMPositionBuilderAtEnd g b)) = b"
  by (simp_all add: builder_defs)

lemma gen_debug_safety_crash_position [simp]:
  "insert_block (builder (gen_debug_safety_crash g)) = insert_block (builder g)"
  by (simp add: gen_debug_safety_crash_def builder_defs Let_def)

lemma get_arithmetic_overflow_fn_builder:
  "get_arithmetic_overflow_fn g ty s u = Inr (fn, g') \<Longrightarrow> builder g' = builder g"
  by (auto simp: get_arithmetic_overflow_fn_def LLVMAddFunction_def Let_def
        split: if_splits)

lemma get_int_overflow_fn_builder:
  "get_int_overflow_fn g ty op = Inr (fn, g') \<Longrightarrow> builder g' = builder g"
  by (cases op)
     (auto simp: get_int_overflow_fn_def Let_def and_then_def
        dest: get_arithmetic_overflow_fn_builder
        split: if_splits sum.splits prod.splits)
















subsection \<open>Phi\<close>















end
